theory Spec2Isabelle
  imports Main "HOL-Library.Char_ord" "HOL-Library.List_Lexorder"
begin

section \<open>JavaScript values and strings\<close>

text \<open>
  The payment controllers read JSON request bodies. A field value is one of the flat
  JavaScript values below (the provider's webhook payload is a flat field set; numbers are
  the integers a payment payload carries, below the size at which JavaScript prints an
  exponent). An object is an association list from field
  names to values; a name bound twice reads as its first binding.
\<close>

datatype jsval = JUndefined | JNull | JBool bool | JNum int | JStr string

type_synonym jsobj = "(string \<times> jsval) list"

text \<open>JavaScript truthiness, as used by \<^verbatim>\<open>!x\<close>, \<^verbatim>\<open>x || y\<close> and \<^verbatim>\<open>x ? a : b\<close>.\<close>

fun truthy :: "jsval \<Rightarrow> bool" where
  "truthy JUndefined = False"
| "truthy JNull = False"
| "truthy (JBool b) = b"
| "truthy (JNum n) = (n \<noteq> 0)"
| "truthy (JStr s) = (s \<noteq> [])"

text \<open>\<^verbatim>\<open>obj[key]\<close>: the value of a field, \<^verbatim>\<open>undefined\<close> when the object has no such field.\<close>

definition get :: "jsobj \<Rightarrow> string \<Rightarrow> jsval" where
  "get obj key = (case map_of obj key of None \<Rightarrow> JUndefined | Some v \<Rightarrow> v)"

definition Object_keys :: "jsobj \<Rightarrow> string list" where
  "Object_keys obj = remdups (map fst obj)"

text \<open>Decimal rendering of a number, as \<^verbatim>\<open>String(n)\<close> and \<^verbatim>\<open>n.toString()\<close> give it for integers.\<close>

fun string_of_nat :: "nat \<Rightarrow> string" where
  "string_of_nat n =
     (if n < 10 then [''0123456789'' ! n]
      else string_of_nat (n div 10) @ [''0123456789'' ! (n mod 10)])"

declare string_of_nat.simps [simp del]

fun String :: "jsval \<Rightarrow> string" where
  "String JUndefined = ''undefined''"
| "String JNull = ''null''"
| "String (JBool b) = (if b then ''true'' else ''false'')"
| "String (JNum n) = (if n < 0 then ''-'' @ string_of_nat (nat (- n)) else string_of_nat (nat n))"
| "String (JStr s) = s"

text \<open>\<^verbatim>\<open>s.toLowerCase()\<close> on the ASCII letters.\<close>

definition lower_char :: "char \<Rightarrow> char" where
  "lower_char c =
     (case map_of (zip ''ABCDEFGHIJKLMNOPQRSTUVWXYZ'' ''abcdefghijklmnopqrstuvwxyz'') c of
        None \<Rightarrow> c
      | Some d \<Rightarrow> d)"

definition toLowerCase :: "string \<Rightarrow> string" where
  "toLowerCase s = map lower_char s"

text \<open>\<^verbatim>\<open>xs.join(sep)\<close> on an array of strings.\<close>

fun join :: "string \<Rightarrow> string list \<Rightarrow> string" where
  "join sep [] = []"
| "join sep [x] = x"
| "join sep (x # y # ys) = x @ sep @ join sep (y # ys)"

section \<open>Process configuration\<close>

text \<open>
  The environment variables the controllers read, fixed when the process starts, and the
  keyed hash of Node's \<^verbatim>\<open>crypto\<close> library (\<^verbatim>\<open>createHmac("sha256", key).update(msg).digest("hex")\<close>),
  which is not code of this repository and is taken as a parameter: key, then message.
\<close>

record config =
  PAYOS_CLIENT_ID :: "string option"
  PAYOS_API_KEY :: "string option"
  PAYOS_CHECKSUM_KEY :: "string option"
  NODE_ENV :: "string option"
  SKIP_PAYOS_SIGNATURE_VERIFY :: "string option"
  STRIPE_WEBHOOK_SECRET :: "string option"
  hmac_sha256_hex :: "string \<Rightarrow> string \<Rightarrow> string"

text \<open>\<^verbatim>\<open>!v\<close> on an environment variable: unset, or set to the empty string.\<close>

definition unset :: "string option \<Rightarrow> bool" where
  "unset v = (case v of None \<Rightarrow> True | Some s \<Rightarrow> s = [])"

section \<open>PayOS webhook signature verification\<close>

text \<open>The development switch of \<^verbatim>\<open>verifyWebhookSignature\<close> (payos.controller.ts, line 254).\<close>

definition skip_enabled :: "config \<Rightarrow> bool" where
  "skip_enabled cfg =
     (NODE_ENV cfg = Some ''development'' \<and> SKIP_PAYOS_SIGNATURE_VERIFY cfg = Some ''true'')"

text \<open>The value normalisation inside the \<^verbatim>\<open>forEach\<close> (lines 269-280).\<close>

definition normalize_value :: "jsval \<Rightarrow> string" where
  "normalize_value v =
     (if v = JNull \<or> v = JUndefined then []
      else if (case v of JStr s \<Rightarrow> s = ''null'' \<or> s = ''undefined'' | _ \<Rightarrow> False) then []
      else String v)"

text \<open>The \<^verbatim>\<open>forEach\<close> that pushes one \<^verbatim>\<open>key=value\<close> string per sorted key (lines 268-283).\<close>

definition push_keyValues :: "jsobj \<Rightarrow> string list \<Rightarrow> string list" where
  "push_keyValues data sortedKeys =
     fold (\<lambda>key keyValues. keyValues @ [key @ ''='' @ normalize_value (get data key)])
       sortedKeys []"

definition webhook_message :: "jsobj \<Rightarrow> string" where
  "webhook_message data = join ''&'' (push_keyValues data (sort (Object_keys data)))"

text \<open>
  \<^verbatim>\<open>verifyWebhookSignature(data, signature)\<close> (lines 247-311). The payload is \<open>None\<close> when it is
  \<^verbatim>\<open>null\<close> or \<^verbatim>\<open>undefined\<close>. The signature is whatever value the caller read from the header or
  the body: on a value that is not a string, \<^verbatim>\<open>signature.toLowerCase\<close> is not a function, the
  \<^verbatim>\<open>TypeError\<close> is caught by the function's own \<^verbatim>\<open>catch\<close>, and the result is \<^verbatim>\<open>false\<close>.
\<close>

definition verifyWebhookSignature :: "config \<Rightarrow> jsobj option \<Rightarrow> jsval \<Rightarrow> bool" where
  "verifyWebhookSignature cfg data signature =
     (case (PAYOS_CHECKSUM_KEY cfg, data) of
        (Some key, Some d) \<Rightarrow>
          if key = [] then False
          else if skip_enabled cfg then True
          else
            let message = webhook_message d;
                computedSignature = hmac_sha256_hex cfg key message
            in (case signature of
                  JStr s \<Rightarrow> toLowerCase computedSignature = toLowerCase s
                | _ \<Rightarrow> False)
      | _ \<Rightarrow> False)"

subsection \<open>The canonical string, as the specification words it\<close>

text \<open>
  Section 4.1 of the specification: normalise each value to a string, with null, undefined
  and the literal strings "null" and "undefined" normalising to the empty string; sort the
  field names lexicographically; build \<open>key=value\<close> pairs joined by \<open>&\<close>.
\<close>

definition spec_normalize :: "jsval \<Rightarrow> string" where
  "spec_normalize v =
     (if v \<in> {JNull, JUndefined, JStr ''null'', JStr ''undefined''} then [] else String v)"

definition spec_canonical :: "jsobj \<Rightarrow> string" where
  "spec_canonical data =
     join ''&'' (map (\<lambda>k. k @ ''='' @ spec_normalize (get data k)) (sort (Object_keys data)))"

section \<open>Stored documents and effects\<close>

text \<open>
  The Mongoose models are not among the sources; the controllers use them through
  \<^verbatim>\<open>findById\<close>, \<^verbatim>\<open>findOne\<close>, \<^verbatim>\<open>create\<close> and \<^verbatim>\<open>save\<close>. Identifiers are strings in their
  canonical form; \<^verbatim>\<open>user.courses\<close> is the list of the \<^verbatim>\<open>_id\<close> strings of its entries, which is all
  the controllers read of it. \<^verbatim>\<open>purchased\<close> is \<open>None\<close> when the field is absent. Of
  \<^verbatim>\<open>payment_info\<close> the model keeps the three fields the controllers query or test: the card
  provider's \<^verbatim>\<open>id\<close>, the QR provider's \<^verbatim>\<open>orderCode\<close> and \<^verbatim>\<open>status\<close>.
\<close>

record user =
  email :: string
  courses :: "string list"

record course =
  name :: string
  purchased :: "int option"

record payment_info =
  pi_id :: "string option"
  pi_orderCode :: "jsval option"
  pi_status :: "string option"

record order =
  courseId :: string
  userId :: "string option"
  payment_info :: "payment_info option"

record notification =
  n_userId :: "string option"
  n_title :: string
  n_message :: string

text \<open>
  Everything a handler does beyond its response is recorded, in program order: console
  output (by level and leading text), storage writes, mail sends, provider calls and
  socket emissions.
\<close>

datatype level = Log | Warn | Err

datatype effect =
    Console level string
  | OrderSave nat
  | OrderCreate
  | UserSave string
  | CourseSave string
  | NotificationCreate
  | SendMail string
  | ProviderCall string
  | SocketEmit string

text \<open>
  The stores. A document of the order collection is identified by its position; a query
  on a field finds the first order whose stored field equals the queried value. Storage
  calls are taken to succeed.
\<close>

record state =
  db_users :: "string \<rightharpoonup> user"
  db_courses :: "string \<rightharpoonup> course"
  db_orders :: "order list"
  db_notifications :: "notification list"
  effects :: "effect list"

definition emit :: "effect \<Rightarrow> state \<Rightarrow> state" where
  "emit e s = s\<lparr>effects := effects s @ [e]\<rparr>"

definition console :: "level \<Rightarrow> string \<Rightarrow> state \<Rightarrow> state" where
  "console l msg s = emit (Console l msg) s"

definition save_order :: "nat \<Rightarrow> order \<Rightarrow> state \<Rightarrow> state" where
  "save_order i ord s = emit (OrderSave i) (s\<lparr>db_orders := (db_orders s)[i := ord]\<rparr>)"

definition create_order :: "order \<Rightarrow> state \<Rightarrow> state" where
  "create_order ord s = emit OrderCreate (s\<lparr>db_orders := db_orders s @ [ord]\<rparr>)"

definition save_user :: "string \<Rightarrow> user \<Rightarrow> state \<Rightarrow> state" where
  "save_user uid u s = emit (UserSave uid) (s\<lparr>db_users := (db_users s)(uid \<mapsto> u)\<rparr>)"

definition save_course :: "string \<Rightarrow> course \<Rightarrow> state \<Rightarrow> state" where
  "save_course cid c s = emit (CourseSave cid) (s\<lparr>db_courses := (db_courses s)(cid \<mapsto> c)\<rparr>)"

definition create_notification :: "notification \<Rightarrow> state \<Rightarrow> state" where
  "create_notification n s =
     emit NotificationCreate (s\<lparr>db_notifications := db_notifications s @ [n]\<rparr>)"

fun find_index :: "('a \<Rightarrow> bool) \<Rightarrow> 'a list \<Rightarrow> nat option" where
  "find_index P [] = None"
| "find_index P (x # xs) = (if P x then Some 0 else map_option Suc (find_index P xs))"

text \<open>\<^verbatim>\<open>OrderModel.findOne({"payment_info.orderCode": v})\<close> and \<^verbatim>\<open>({"payment_info.id": v})\<close>.\<close>

definition has_orderCode :: "jsval \<Rightarrow> order \<Rightarrow> bool" where
  "has_orderCode v ord =
     (case payment_info ord of None \<Rightarrow> False | Some p \<Rightarrow> pi_orderCode p = Some v)"

definition has_id :: "string \<Rightarrow> order \<Rightarrow> bool" where
  "has_id v ord = (case payment_info ord of None \<Rightarrow> False | Some p \<Rightarrow> pi_id p = Some v)"

definition findOne_orderCode :: "jsval \<Rightarrow> state \<Rightarrow> nat option" where
  "findOne_orderCode v s = find_index (has_orderCode v) (db_orders s)"

definition findOne_id :: "string \<Rightarrow> state \<Rightarrow> nat option" where
  "findOne_id v s = find_index (has_id v) (db_orders s)"

text \<open>\<^verbatim>\<open>payment_info.status === "PAID"\<close> on a stored order.\<close>

definition is_paid :: "order \<Rightarrow> bool" where
  "is_paid ord = (case payment_info ord of None \<Rightarrow> False | Some p \<Rightarrow> pi_status p = Some ''PAID'')"

text \<open>\<^verbatim>\<open>order.payment_info = { ...order.payment_info, status: "PAID" }\<close>.\<close>

definition set_paid :: "order \<Rightarrow> order" where
  "set_paid ord =
     ord\<lparr>payment_info :=
       Some ((case payment_info ord of
                None \<Rightarrow> \<lparr>pi_id = None, pi_orderCode = None, pi_status = None\<rparr>
              | Some p \<Rightarrow> p)\<lparr>pi_status := Some ''PAID''\<rparr>)\<rparr>"

text \<open>
  \<^verbatim>\<open>userModel.findById(id)\<close> with an identifier that may be undefined: the user found, with
  its \<^verbatim>\<open>_id\<close>.
\<close>

definition find_user :: "string option \<Rightarrow> state \<Rightarrow> (string \<times> user) option" where
  "find_user uid s =
     (case uid of
        None \<Rightarrow> None
      | Some u \<Rightarrow> (case db_users s u of None \<Rightarrow> None | Some usr \<Rightarrow> Some (u, usr)))"

section \<open>Responses and the outside world\<close>

datatype body =
    ErrorBody string
  | SuccessMessage string
  | Success
  | SuccessOrder order
  | Received
  | Text string
  | SessionBody string string
  | PaymentBody "jsval option"

text \<open>
  A handler ends with \<^verbatim>\<open>res.status(n).json(b)\<close> (or \<^verbatim>\<open>.send\<close>), with
  \<^verbatim>\<open>next(new ErrorHandler(message, n))\<close>, or by handing over to \<^verbatim>\<open>newOrder\<close>.
\<close>

datatype response =
    Res nat body
  | Next string nat
  | NewOrderResponse order

text \<open>The Stripe event that \<^verbatim>\<open>stripe.webhooks.constructEvent\<close> returns, as far as it is read.\<close>

record stripe_event =
  ev_type :: string
  session_id :: string
  session_payment_status :: string
  metadata_courseId :: "string option"
  metadata_userId :: "string option"

text \<open>
  The payment information \<^verbatim>\<open>response.data.data\<close> of a PayOS reply, as far as it is stored
  or queried: its \<^verbatim>\<open>orderCode\<close> and its \<^verbatim>\<open>status\<close>.
\<close>

record payos_data =
  pd_orderCode :: "jsval option"
  pd_status :: "string option"

text \<open>
  What \<^verbatim>\<open>axios.post\<close> to PayOS gives: an error carrying an HTTP response (its status and the
  text \<^verbatim>\<open>data.desc || data.message\<close>, when present) and a message; an error without one; or
  a reply with \<^verbatim>\<open>data.code\<close>, \<^verbatim>\<open>data.desc\<close> and the payment information \<^verbatim>\<open>data.data\<close>.
\<close>

datatype axios_result =
    AxiosHttpError "nat option" "string option" string
  | AxiosError string
  | AxiosReply string "string option" payos_data

text \<open>
  The outcomes of the external calls during one request. A call that throws or rejects
  gives its error message (\<open>Inl\<close>, or \<open>Some\<close> for a call without a result).
\<close>

record world =
  stripe_paymentIntents_retrieve :: "string \<Rightarrow> string + string"
  ejs_renderFile :: "string option"
  sendMail :: "string option"
  socket_initialised :: bool
  stripe_constructEvent :: "string + stripe_event"
  stripe_sessions_create :: "string + string \<times> string"
  axios_post :: axios_result

section \<open>The PayOS webhook\<close>

text \<open>What \<^verbatim>\<open>verifyWebhookSignature\<close> writes to the console (lines 249, 255, 298, 308).\<close>

definition verifyWebhookSignature_console :: "config \<Rightarrow> jsobj option \<Rightarrow> jsval \<Rightarrow> state \<Rightarrow> state" where
  "verifyWebhookSignature_console cfg data signature s =
     (if unset (PAYOS_CHECKSUM_KEY cfg) \<or> data = None
        then console Err ''Missing checksum key or data'' s
      else if skip_enabled cfg
        then console Warn ''Skipping PayOS signature verification (development mode)'' s
      else (case signature of
              JStr sig \<Rightarrow>
                if verifyWebhookSignature cfg data signature then s
                else console Err ''Signature mismatch:'' s
            | _ \<Rightarrow> console Err ''Error verifying webhook signature:'' s))"

record payos_request =
  x_payos_signature :: "string option"
  body :: jsobj
  body_data :: "jsobj option"

text \<open>\<^verbatim>\<open>req.headers["x-payos-signature"] || req.body.signature\<close> and \<^verbatim>\<open>req.body.data || req.body\<close>.\<close>

definition request_signature :: "payos_request \<Rightarrow> jsval" where
  "request_signature req =
     (case x_payos_signature req of
        None \<Rightarrow> get (body req) ''signature''
      | Some h \<Rightarrow> if h \<noteq> [] then JStr h else get (body req) ''signature'')"

definition request_data :: "payos_request \<Rightarrow> jsobj" where
  "request_data req = (case body_data req of None \<Rightarrow> body req | Some d \<Rightarrow> d)"

text \<open>Lines 361-364.\<close>

definition isPaymentSuccess :: "jsobj \<Rightarrow> bool" where
  "isPaymentSuccess data =
     (get data ''code'' = JStr ''00'' \<or> get data ''desc'' = JStr ''success''
      \<or> get data ''status'' = JStr ''PAID'')"

text \<open>The socket block (lines 480-515): \<^verbatim>\<open>getIO\<close> throws when the server was never initialised.\<close>

definition emit_payment_success :: "world \<Rightarrow> state \<Rightarrow> state" where
  "emit_payment_success w s =
     (if socket_initialised w then
        console Log ''[SOCKET] Broadcasted newNotification to all clients''
          (emit (SocketEmit ''newNotification'')
            (console Log ''[SOCKET] Room has connected socket(s)''
              (console Log ''[SOCKET] Payment data:''
                (console Log ''[SOCKET] Emitted paymentSuccess event to room''
                  (emit (SocketEmit ''paymentSuccess'') s)))))
      else console Err ''[SOCKET] Failed to emit socket event:'' s)"

text \<open>
  The grant of the success path (lines 428-517), for the order at position \<open>i\<close>, its course
  and its user. The mail is sent without waiting and its rejection is caught by an empty
  handler, so the outcome of the send changes nothing.
\<close>

definition payos_grant ::
  "world \<Rightarrow> nat \<Rightarrow> order \<Rightarrow> string \<Rightarrow> course \<Rightarrow> string \<Rightarrow> user \<Rightarrow> state \<Rightarrow> state" where
  "payos_grant w i existingOrder cid crs uid usr s0 =
     (let s1 = save_order i (set_paid existingOrder) s0;
          s2 = (if \<not> (cid \<in> set (courses usr))
                then save_user uid (usr\<lparr>courses := courses usr @ [cid]\<rparr>) s1
                else s1);
          s3 = emit (SendMail (email usr)) s2;
          s4 = create_notification
                 \<lparr>n_userId = Some uid, n_title = ''New Order'',
                  n_message = ''You have a new order for '' @ name crs\<rparr> s3;
          s5 = save_course cid
                 (crs\<lparr>purchased := Some ((case purchased crs of None \<Rightarrow> 0 | Some n \<Rightarrow> n) + 1)\<rparr>) s4;
          s6 = emit_payment_success w s5
      in console Log ''Order processed successfully via webhook'' s6)"

text \<open>
  \<^verbatim>\<open>payOSWebhook\<close> (lines 314-527). The JSON body parser makes \<^verbatim>\<open>req.body\<close> an object, so
  \<^verbatim>\<open>data\<close> is an object and of \<^verbatim>\<open>!data || !signature\<close> only the signature can be missing.
\<close>

definition payOSWebhook :: "config \<Rightarrow> world \<Rightarrow> payos_request \<Rightarrow> state \<Rightarrow> response \<times> state" where
  "payOSWebhook cfg w req s0 =
     (let signature = request_signature req;
          data = request_data req
      in
      if \<not> truthy signature then
        (Res 400 (ErrorBody ''Missing data or signature''),
         console Err ''Missing data or signature'' s0)
      else
        let s1 = console Log ''Webhook received:'' s0;
            s2 = verifyWebhookSignature_console cfg (Some data) signature s1
        in
        if \<not> verifyWebhookSignature cfg (Some data) signature then
          (Res 401 (ErrorBody ''Invalid signature''), console Err ''Invalid webhook signature'' s2)
        else
          let orderCode = get data ''orderCode'';
              s3 = console Log ''Processing webhook:'' s2
          in
          (case findOne_orderCode orderCode s3 of
             None \<Rightarrow>
               let s4 = console Warn ''Order not found for orderCode:'' s3 in
               if isPaymentSuccess data then
                 (Res 200 (SuccessMessage ''Order not found but acknowledged''),
                  console Err ''Real payment received for non-existent order:'' s4)
               else
                 (Res 200 (SuccessMessage ''Webhook received (test or unknown order)''), s4)
           | Some i \<Rightarrow>
               let existingOrder = db_orders s3 ! i in
               if is_paid existingOrder then
                 (Res 200 (SuccessMessage ''Order already processed''), s3)
               else if isPaymentSuccess data then
                 (case (db_courses s3 (courseId existingOrder),
                        find_user (userId existingOrder) s3) of
                    (Some crs, Some (uid, usr)) \<Rightarrow>
                      if courseId existingOrder \<in> set (courses usr) then
                        (Res 200 (SuccessMessage ''Course already added''),
                         save_order i (set_paid existingOrder)
                           (console Log ''User already has this course'' s3))
                      else
                        (Res 200 Success,
                         payos_grant w i existingOrder (courseId existingOrder) crs uid usr s3)
                  | _ \<Rightarrow>
                      (Res 404 (ErrorBody ''Course or user not found''),
                       console Err ''Course or user not found'' s3))
               else (Res 200 Success, s3)))"

section \<open>The synchronous confirmation: createOrder\<close>

record order_request =
  req_user :: "string option"
  req_courseId :: string
  req_payment_info :: "payment_info option"

text \<open>
  Lines 21-39: the check with the card provider. It runs only when the request carries a
  \<^verbatim>\<open>payment_info\<close> that has an \<^verbatim>\<open>id\<close>. The result is the handler's early answer (\<open>Inl\<close>) or the
  \<^verbatim>\<open>paymentIntentId\<close> to go on with (\<open>Inr\<close>). An error thrown by \<^verbatim>\<open>retrieve\<close> reaches the
  handler's \<^verbatim>\<open>catch\<close> (line 105), which answers 400 with the error's message.
\<close>

definition check_payment_intent ::
  "world \<Rightarrow> payment_info option \<Rightarrow> state \<Rightarrow> (response \<times> state) + (string option \<times> state)" where
  "check_payment_intent w pinfo s =
     (case pinfo of
        None \<Rightarrow> Inr (None, s)
      | Some p \<Rightarrow>
          (case pi_id p of
             None \<Rightarrow> Inr (None, s)
           | Some paymentIntentId \<Rightarrow>
               (case findOne_id paymentIntentId s of
                  Some i \<Rightarrow> Inl (Res 200 (SuccessOrder (db_orders s ! i)), s)
                | None \<Rightarrow>
                    let s1 = emit (ProviderCall ''stripe.paymentIntents.retrieve'') s in
                    (case stripe_paymentIntents_retrieve w paymentIntentId of
                       Inl msg \<Rightarrow> Inl (Next msg 400, s1)
                     | Inr status \<Rightarrow>
                         let s2 = console Log status s1 in
                         if status \<noteq> ''succeeded''
                         then Inl (Next ''Payment not authorized'' 400, s2)
                         else Inr (Some paymentIntentId, s2)))))"

text \<open>
  Modelled from the spec: \<^verbatim>\<open>newOrder\<close> of \<^verbatim>\<open>services/order.service\<close>, which is not among the
  sources. Section 4.5 has the synchronous path end by creating the Order record from the
  data it is given and returning it.
\<close>

definition newOrder :: "order \<Rightarrow> state \<Rightarrow> response \<times> state" where
  "newOrder data s = (NewOrderResponse data, create_order data s)"

text \<open>
  Lines 83-102, once the mail is out: the grant and the order. The counter line is
  \<^verbatim>\<open>course.purchased ? course.purchased += 1 : course.purchased\<close>.
\<close>

definition createOrder_grant ::
  "string option \<Rightarrow> (string \<times> user) option \<Rightarrow> string \<Rightarrow> course \<Rightarrow> payment_info option
     \<Rightarrow> state \<Rightarrow> response \<times> state" where
  "createOrder_grant paymentIntentId usr cid crs pinfo s0 =
     (let s1 = (case usr of
                  None \<Rightarrow> s0
                | Some (uid, u) \<Rightarrow>
                    save_user uid
                      (if \<not> (cid \<in> set (courses u)) then u\<lparr>courses := courses u @ [cid]\<rparr> else u)
                      s0);
          s2 = create_notification
                 \<lparr>n_userId = map_option fst usr, n_title = ''New Order'',
                  n_message = ''You have a new order form '' @ name crs\<rparr> s1;
          crs' = (case purchased crs of
                    None \<Rightarrow> crs
                  | Some n \<Rightarrow> if n \<noteq> 0 then crs\<lparr>purchased := Some (n + 1)\<rparr> else crs);
          s3 = save_course cid crs' s2;
          existingOrder = (case paymentIntentId of
                             None \<Rightarrow> None
                           | Some pid \<Rightarrow> if pid \<noteq> [] then findOne_id pid s3 else None)
      in (case existingOrder of
            Some i \<Rightarrow> (Res 200 (SuccessOrder (db_orders s3 ! i)), s3)
          | None \<Rightarrow>
              newOrder \<lparr>courseId = cid, userId = map_option fst usr, payment_info = pinfo\<rparr> s3))"

text \<open>\<^verbatim>\<open>createOrder\<close> (lines 16-109).\<close>

definition createOrder :: "world \<Rightarrow> order_request \<Rightarrow> state \<Rightarrow> response \<times> state" where
  "createOrder w req s0 =
     (let s1 = console Log ''payment_info'' (console Log ''courseId'' s0) in
      case check_payment_intent w (req_payment_info req) s1 of
        Inl answer \<Rightarrow> answer
      | Inr (paymentIntentId, s2) \<Rightarrow>
          let usr = find_user (req_user req) s2;
              s3 = console Log ''user'' s2
          in
          if (case usr of None \<Rightarrow> False | Some (uid, u) \<Rightarrow> req_courseId req \<in> set (courses u))
          then (Next ''You already purchased this course'' 400, s3)
          else
            let s4 = console Log ''course'' s3 in
            (case db_courses s4 (req_courseId req) of
               None \<Rightarrow> (Next ''Course not found'' 404, s4)
             | Some crs \<Rightarrow>
                 (case ejs_renderFile w of
                    Some msg \<Rightarrow> (Next msg 400, s4)
                  | None \<Rightarrow>
                      (case usr of
                         None \<Rightarrow>
                           createOrder_grant paymentIntentId usr (req_courseId req) crs
                             (req_payment_info req) s4
                       | Some (uid, u) \<Rightarrow>
                           let s5 = emit (SendMail (email u)) s4 in
                           (case sendMail w of
                              Some msg \<Rightarrow> (Next msg 500, s5)
                            | None \<Rightarrow>
                                createOrder_grant paymentIntentId usr (req_courseId req) crs
                                  (req_payment_info req) s5)))))"

section \<open>The Stripe checkout session and webhook\<close>

record intent_request =
  ir_user :: "string option"
  ir_courseId :: "string option"
  ir_amount :: jsval

text \<open>\<^verbatim>\<open>createCheckoutSession\<close> (stripe controller, lines 16-76).\<close>

definition createCheckoutSession :: "world \<Rightarrow> intent_request \<Rightarrow> state \<Rightarrow> response \<times> state" where
  "createCheckoutSession w req s =
     (if unset (ir_courseId req) \<or> \<not> truthy (ir_amount req) then
        (Next ''Course ID and amount are required'' 400, s)
      else
        let cid = (case ir_courseId req of None \<Rightarrow> [] | Some c \<Rightarrow> c) in
        (case db_courses s cid of
           None \<Rightarrow> (Next ''Course not found'' 404, s)
         | Some crs \<Rightarrow>
             (case find_user (ir_user req) s of
                None \<Rightarrow> (Next ''User not found'' 404, s)
              | Some (uid, usr) \<Rightarrow>
                  if cid \<in> set (courses usr) then
                    (Next ''You already purchased this course'' 400, s)
                  else
                    let s1 = emit (ProviderCall ''stripe.checkout.sessions.create'') s in
                    (case stripe_sessions_create w of
                       Inl msg \<Rightarrow> (Next msg 500, s1)
                     | Inr (url, sid) \<Rightarrow> (Res 200 (SessionBody url sid), s1)))))"

text \<open>
  The grant of \<^verbatim>\<open>stripeWebhook\<close> (lines 136-195). The mail is awaited inside a
  \<^verbatim>\<open>try\<close> whose \<^verbatim>\<open>catch\<close> is empty.
\<close>

definition stripe_grant ::
  "stripe_event \<Rightarrow> string \<Rightarrow> course \<Rightarrow> string \<Rightarrow> user \<Rightarrow> state \<Rightarrow> state" where
  "stripe_grant ev cid crs uid usr s0 =
     (let s1 = create_order
                 \<lparr>courseId = cid, userId = Some uid,
                  payment_info = Some \<lparr>pi_id = Some (session_id ev), pi_orderCode = None,
                                         pi_status = Some (session_payment_status ev)\<rparr>\<rparr> s0;
          s2 = (if \<not> (cid \<in> set (courses usr))
                then save_user uid (usr\<lparr>courses := courses usr @ [cid]\<rparr>) s1
                else s1);
          s3 = emit (SendMail (email usr)) s2;
          s4 = create_notification
                 \<lparr>n_userId = Some uid, n_title = ''New Order'',
                  n_message = ''You have a new order for '' @ name crs\<rparr> s3;
          s5 = save_course cid
                 (crs\<lparr>purchased := Some ((case purchased crs of None \<Rightarrow> 0 | Some n \<Rightarrow> n) + 1)\<rparr>) s4
      in console Log ''Order created successfully via webhook'' s5)"

text \<open>\<^verbatim>\<open>stripeWebhook\<close> (lines 79-205).\<close>

definition stripeWebhook :: "config \<Rightarrow> world \<Rightarrow> state \<Rightarrow> response \<times> state" where
  "stripeWebhook cfg w s =
     (if unset (STRIPE_WEBHOOK_SECRET cfg) then
        (Next ''Stripe webhook secret is not configured'' 500, s)
      else
        (case stripe_constructEvent w of
           Inl msg \<Rightarrow>
             (Res 400 (Text (''Webhook Error: '' @ msg)),
              console Err ''Webhook signature verification failed:'' s)
         | Inr ev \<Rightarrow>
             if ev_type ev = ''checkout.session.completed'' then
               if unset (metadata_courseId ev) \<or> unset (metadata_userId ev) then
                 (Res 400 (ErrorBody ''Missing metadata''),
                  console Err ''Missing courseId or userId in session metadata'' s)
               else
                 (case findOne_id (session_id ev) s of
                    Some i \<Rightarrow>
                      (Res 200 Received, console Log ''Order already exists for this session'' s)
                  | None \<Rightarrow>
                      let cid = (case metadata_courseId ev of None \<Rightarrow> [] | Some c \<Rightarrow> c) in
                      (case (db_courses s cid, find_user (metadata_userId ev) s) of
                         (Some crs, Some (uid, usr)) \<Rightarrow>
                           if cid \<in> set (courses usr) then
                             (Res 200 Received, console Log ''User already has this course'' s)
                           else (Res 200 Received, stripe_grant ev cid crs uid usr s)
                       | _ \<Rightarrow>
                           (Res 404 (ErrorBody ''Course or user not found''),
                            console Err ''Course or user not found'' s)))
             else (Res 200 Received, s)))"

section \<open>The PayOS payment request\<close>

text \<open>
  \<^verbatim>\<open>createPayOSPayment\<close> (payos controller, lines 69-242). The request sent to the provider
  (order code, expiry, description, signature value) is not modelled beyond the one place
  where building it fails: \<^verbatim>\<open>createPayOSSignature\<close> throws without a checksum key, and the
  handler's \<^verbatim>\<open>catch\<close> answers 500. The pending order is built field by field from the
  reply (lines 164-180): it gets the reply's \<^verbatim>\<open>orderCode\<close> and \<^verbatim>\<open>status\<close> and no \<^verbatim>\<open>id\<close>. Of the
  answer to the client (lines 210-221), which carries no status, the model keeps the
  \<^verbatim>\<open>orderCode\<close>.
\<close>

definition createPayOSPayment ::
  "config \<Rightarrow> world \<Rightarrow> intent_request \<Rightarrow> state \<Rightarrow> response \<times> state" where
  "createPayOSPayment cfg w req s =
     (if unset (ir_courseId req) \<or> \<not> truthy (ir_amount req) then
        (Next ''Course ID and amount are required'' 400, s)
      else if unset (PAYOS_CLIENT_ID cfg) \<or> unset (PAYOS_API_KEY cfg) then
        (Next ''PayOS credentials are not configured'' 500, s)
      else
        let cid = (case ir_courseId req of None \<Rightarrow> [] | Some c \<Rightarrow> c) in
        (case db_courses s cid of
           None \<Rightarrow> (Next ''Course not found'' 404, s)
         | Some crs \<Rightarrow>
             (case find_user (ir_user req) s of
                None \<Rightarrow> (Next ''User not found'' 404, s)
              | Some (uid, usr) \<Rightarrow>
                  if cid \<in> set (courses usr) then
                    (Next ''You already purchased this course'' 400, s)
                  else if unset (PAYOS_CHECKSUM_KEY cfg) then
                    (Next ''PayOS checksum key is not configured'' 500, s)
                  else
                    let s1 = emit (ProviderCall ''axios.post PAYOS_API_URL'') s in
                    (case axios_post w of
                       AxiosHttpError status text msg \<Rightarrow>
                         (Next (case text of None \<Rightarrow> msg | Some t \<Rightarrow> if t \<noteq> [] then t else msg)
                            (case status of None \<Rightarrow> 500 | Some n \<Rightarrow> if n \<noteq> 0 then n else 500),
                          s1)
                     | AxiosError msg \<Rightarrow> (Next msg 500, s1)
                     | AxiosReply code desc paymentInfo \<Rightarrow>
                         if code = ''00'' then
                           let ord = \<lparr>courseId = cid, userId = Some uid,
                                      payment_info =
                                        Some \<lparr>pi_id = None,
                                              pi_orderCode = pd_orderCode paymentInfo,
                                              pi_status = pd_status paymentInfo\<rparr>\<rparr>;
                               s2 = (case pd_orderCode paymentInfo of
                                       None \<Rightarrow> create_order ord s1
                                     | Some oc \<Rightarrow>
                                         (case findOne_orderCode oc s1 of
                                            None \<Rightarrow> create_order ord s1
                                          | Some i \<Rightarrow> s1))
                           in (Res 200 (PaymentBody (pd_orderCode paymentInfo)), s2)
                         else
                           (Next (case desc of
                                    None \<Rightarrow> ''Failed to create payment request''
                                  | Some d \<Rightarrow> if d \<noteq> [] then d
                                              else ''Failed to create payment request'') 500,
                            s1)))))"

section \<open>The subsystem as a whole\<close>

text \<open>One request to the subsystem, with the outcomes of the external calls it makes.\<close>

datatype operation =
    CreateOrder world order_request
  | PayOSWebhook world payos_request
  | StripeWebhook world
  | CreateCheckoutSession world intent_request
  | CreatePayOSPayment world intent_request

fun handle :: "config \<Rightarrow> operation \<Rightarrow> state \<Rightarrow> response \<times> state" where
  "handle cfg (CreateOrder w req) s = createOrder w req s"
| "handle cfg (PayOSWebhook w req) s = payOSWebhook cfg w req s"
| "handle cfg (StripeWebhook w) s = stripeWebhook cfg w s"
| "handle cfg (CreateCheckoutSession w req) s = createCheckoutSession w req s"
| "handle cfg (CreatePayOSPayment w req) s = createPayOSPayment cfg w req s"

text \<open>Requests served one after the other.\<close>

fun run :: "config \<Rightarrow> operation list \<Rightarrow> state \<Rightarrow> state" where
  "run cfg [] s = s"
| "run cfg (op # ops) s = run cfg ops (snd (handle cfg op s))"

section \<open>Observing a request\<close>

text \<open>
  The side effects of a request are what it writes to the stores and what it sends out:
  every effect but console output.
\<close>

fun is_console :: "effect \<Rightarrow> bool" where
  "is_console (Console l msg) = True"
| "is_console e = False"

definition side_effects :: "state \<Rightarrow> effect list" where
  "side_effects s = filter (\<lambda>e. \<not> is_console e) (effects s)"

text \<open>No side effect between \<open>s\<close> and \<open>s'\<close>: the stores are the same and nothing was sent.\<close>

definition no_side_effects :: "state \<Rightarrow> state \<Rightarrow> bool" where
  "no_side_effects s s' =
     (db_users s' = db_users s \<and> db_courses s' = db_courses s \<and> db_orders s' = db_orders s
      \<and> db_notifications s' = db_notifications s \<and> side_effects s' = side_effects s)"

text \<open>The stores alone.\<close>

definition same_stores :: "state \<Rightarrow> state \<Rightarrow> bool" where
  "same_stores s s' =
     (db_users s' = db_users s \<and> db_courses s' = db_courses s \<and> db_orders s' = db_orders s
      \<and> db_notifications s' = db_notifications s)"

text \<open>\<^verbatim>\<open>course.purchased\<close> read as a number, an absent counter reading as 0.\<close>

definition purchased_count :: "state \<Rightarrow> string \<Rightarrow> int" where
  "purchased_count s cid =
     (case db_courses s cid of
        None \<Rightarrow> 0
      | Some crs \<Rightarrow> (case purchased crs of None \<Rightarrow> 0 | Some n \<Rightarrow> n))"

text \<open>The courses a user owns; none for an unknown user.\<close>

definition owned :: "state \<Rightarrow> string \<Rightarrow> string list" where
  "owned s uid = (case db_users s uid of None \<Rightarrow> [] | Some usr \<Rightarrow> courses usr)"

text \<open>
  The ways one request can change the order collection: not at all, by appending an order,
  or by marking an order that is not yet paid as \<^verbatim>\<open>PAID\<close>.
\<close>

definition orders_step :: "state \<Rightarrow> state \<Rightarrow> bool" where
  "orders_step s s' =
     (db_orders s' = db_orders s
      \<or> (\<exists>ord. db_orders s' = db_orders s @ [ord])
      \<or> (\<exists>j. \<not> is_paid (db_orders s ! j)
              \<and> db_orders s' = (db_orders s)[j := set_paid (db_orders s ! j)]))"

text \<open>
  The provider delivering the same webhook several times in a row, each delivery with its
  own outcomes of the external calls.
\<close>

fun deliver :: "config \<Rightarrow> payos_request \<Rightarrow> world list \<Rightarrow> state \<Rightarrow> state" where
  "deliver cfg req [] s = s"
| "deliver cfg req (w # ws) s = deliver cfg req ws (snd (payOSWebhook cfg w req s))"

section \<open>Sample data\<close>

text \<open>
  A configuration with a stand-in for the keyed hash (key, colon, message), one course, one
  user, and one pending PayOS order for them.
\<close>

definition cfg0 :: config where
  "cfg0 = \<lparr>PAYOS_CLIENT_ID = Some ''client'', PAYOS_API_KEY = Some ''api'',
           PAYOS_CHECKSUM_KEY = Some ''k'', NODE_ENV = Some ''production'',
           SKIP_PAYOS_SIGNATURE_VERIFY = None, STRIPE_WEBHOOK_SECRET = Some ''whsec'',
           hmac_sha256_hex = (\<lambda>key msg. key @ '':'' @ msg)\<rparr>"

definition ev0 :: stripe_event where
  "ev0 = \<lparr>ev_type = ''checkout.session.completed'', session_id = ''cs_1'',
           session_payment_status = ''paid'', metadata_courseId = Some ''c1'',
           metadata_userId = Some ''u1''\<rparr>"

text \<open>
  The outside world with the card provider reporting every PaymentIntent as unpaid; the
  same with every PaymentIntent confirmed; and that with the mail transport down.
\<close>

definition world0 :: world where
  "world0 = \<lparr>stripe_paymentIntents_retrieve = (\<lambda>pid. Inr ''requires_payment_method''),
             ejs_renderFile = None, sendMail = None, socket_initialised = True,
             stripe_constructEvent = Inr ev0,
             stripe_sessions_create = Inr (''https://checkout'', ''cs_1''),
             axios_post = AxiosError ''timeout''\<rparr>"

definition world_ok :: world where
  "world_ok = world0\<lparr>stripe_paymentIntents_retrieve := (\<lambda>pid. Inr ''succeeded'')\<rparr>"

definition world_mail_down :: world where
  "world_mail_down = world_ok\<lparr>sendMail := Some ''SMTP down''\<rparr>"

definition pending0 :: order where
  "pending0 = \<lparr>courseId = ''c1'', userId = Some ''u1'',
               payment_info = Some \<lparr>pi_id = None, pi_orderCode = Some (JNum 1700000000123),
                                      pi_status = Some ''PENDING''\<rparr>\<rparr>"

definition state0 :: state where
  "state0 = \<lparr>db_users = [''u1'' \<mapsto> \<lparr>email = ''u1@mail'', courses = []\<rparr>],
             db_courses = [''c1'' \<mapsto> \<lparr>name = ''Course'', purchased = Some 0\<rparr>],
             db_orders = [pending0], db_notifications = [], effects = []\<rparr>"

text \<open>
  The same stores with the course already owned by the user; with no order yet; and with
  the order already paid.
\<close>

definition state_owned :: state where
  "state_owned = state0\<lparr>db_users := [''u1'' \<mapsto> \<lparr>email = ''u1@mail'', courses = [''c1'']\<rparr>]\<rparr>"

definition state_fresh :: state where
  "state_fresh = state0\<lparr>db_orders := []\<rparr>"

definition state_paid :: state where
  "state_paid = state0\<lparr>db_orders := [set_paid pending0]\<rparr>"

text \<open>The pending order with its course gone from the course collection.\<close>

definition state_nocourse :: state where
  "state_nocourse = state0\<lparr>db_courses := Map.empty\<rparr>"

text \<open>No order yet, and the course stored without a \<^verbatim>\<open>purchased\<close> field.\<close>

definition state_absent :: state where
  "state_absent = state_fresh\<lparr>db_courses := [''c1'' \<mapsto> \<lparr>name = ''Course'', purchased = None\<rparr>]\<rparr>"

text \<open>A success webhook for the pending order, signed in the request header.\<close>

definition data0 :: jsobj where
  "data0 = [(''orderCode'', JNum 1700000000123), (''code'', JStr ''00''),
            (''desc'', JStr ''success''), (''amount'', JNum 49)]"

definition webhook0 :: payos_request where
  "webhook0 = \<lparr>x_payos_signature = Some ''K:AMOUNT=49&CODE=00&DESC=SUCCESS&ORDERCODE=1700000000123'',
               body = [], body_data = Some data0\<rparr>"

text \<open>The same webhook with the amount altered after signing.\<close>

definition tampered0 :: payos_request where
  "tampered0 = webhook0\<lparr>body_data :=
       Some [(''orderCode'', JNum 1700000000123), (''code'', JStr ''00''),
             (''desc'', JStr ''success''), (''amount'', JNum 1)]\<rparr>"

text \<open>
  A webhook whose \<^verbatim>\<open>desc\<close> alone says success, signed in the body, and one that reports a
  failure.
\<close>

definition data_desc :: jsobj where
  "data_desc = [(''orderCode'', JNum 1700000000123), (''code'', JStr ''01''),
                (''desc'', JStr ''success''), (''status'', JStr ''CANCELLED'')]"

definition webhook_desc :: payos_request where
  "webhook_desc =
     \<lparr>x_payos_signature = None,
      body = [(''signature'', JStr ''k:code=01&desc=success&orderCode=1700000000123&status=CANCELLED'')],
      body_data = Some data_desc\<rparr>"

definition data_fail :: jsobj where
  "data_fail = [(''orderCode'', JNum 1700000000123), (''code'', JStr ''01''),
                (''desc'', JStr ''failed''), (''status'', JStr ''CANCELLED'')]"

definition webhook_fail :: payos_request where
  "webhook_fail =
     \<lparr>x_payos_signature = Some ''k:code=01&desc=failed&orderCode=1700000000123&status=CANCELLED'',
      body = [], body_data = Some data_fail\<rparr>"

text \<open>
  Confirmation requests for the course: one whose \<^verbatim>\<open>payment_info\<close> has no \<^verbatim>\<open>id\<close> and claims
  success itself, and one that names a PaymentIntent.
\<close>

definition req_no_id :: order_request where
  "req_no_id = \<lparr>req_user = Some ''u1'', req_courseId = ''c1'',
                req_payment_info = Some \<lparr>pi_id = None, pi_orderCode = None,
                                          pi_status = Some ''succeeded''\<rparr>\<rparr>"

definition req_pi :: order_request where
  "req_pi = \<lparr>req_user = Some ''u1'', req_courseId = ''c1'',
             req_payment_info = Some \<lparr>pi_id = Some ''pi_1'', pi_orderCode = None,
                                       pi_status = Some ''succeeded''\<rparr>\<rparr>"

text \<open>Intent requests by the user for the course, with and without an amount.\<close>

definition intent0 :: intent_request where
  "intent0 = \<lparr>ir_user = Some ''u1'', ir_courseId = Some ''c1'', ir_amount = JNum 49\<rparr>"

definition intent_no_amount :: intent_request where
  "intent_no_amount = intent0\<lparr>ir_amount := JUndefined\<rparr>"

text \<open>Requests of every kind, served after the order was paid.\<close>

definition ops0 :: "operation list" where
  "ops0 = [PayOSWebhook world0 webhook_fail, PayOSWebhook world0 webhook0,
           CreateOrder world_ok req_pi, StripeWebhook world0,
           CreatePayOSPayment world0 intent0, CreateCheckoutSession world0 intent0]"

section \<open>Properties\<close>

subsection \<open>The canonical string\<close>

lemma fold_snoc_map: "fold (\<lambda>k acc. acc @ [f k]) ks acc0 = acc0 @ map f ks"
  by (induction ks arbitrary: acc0) simp_all

lemma normalize_value_spec: "normalize_value v = spec_normalize v"
  by (cases v) (auto simp: normalize_value_def spec_normalize_def)

lemma webhook_message_spec: "webhook_message data = spec_canonical data"
  by (simp add: webhook_message_def spec_canonical_def push_keyValues_def fold_snoc_map
      normalize_value_spec)

subsection \<open>The state operations, field by field\<close>

lemma emit_fields [simp]:
  "db_users (emit e s) = db_users s" "db_courses (emit e s) = db_courses s"
  "db_orders (emit e s) = db_orders s" "db_notifications (emit e s) = db_notifications s"
  "effects (emit e s) = effects s @ [e]"
  by (simp_all add: emit_def)

lemma console_fields [simp]:
  "db_users (console l m s) = db_users s" "db_courses (console l m s) = db_courses s"
  "db_orders (console l m s) = db_orders s" "db_notifications (console l m s) = db_notifications s"
  "effects (console l m s) = effects s @ [Console l m]"
  by (simp_all add: console_def)

lemma save_order_fields [simp]:
  "db_users (save_order i ord s) = db_users s" "db_courses (save_order i ord s) = db_courses s"
  "db_orders (save_order i ord s) = (db_orders s)[i := ord]"
  "db_notifications (save_order i ord s) = db_notifications s"
  "effects (save_order i ord s) = effects s @ [OrderSave i]"
  by (simp_all add: save_order_def)

lemma create_order_fields [simp]:
  "db_users (create_order ord s) = db_users s" "db_courses (create_order ord s) = db_courses s"
  "db_orders (create_order ord s) = db_orders s @ [ord]"
  "db_notifications (create_order ord s) = db_notifications s"
  "effects (create_order ord s) = effects s @ [OrderCreate]"
  by (simp_all add: create_order_def)

lemma save_user_fields [simp]:
  "db_users (save_user uid u s) = (db_users s)(uid \<mapsto> u)"
  "db_courses (save_user uid u s) = db_courses s"
  "db_orders (save_user uid u s) = db_orders s"
  "db_notifications (save_user uid u s) = db_notifications s"
  "effects (save_user uid u s) = effects s @ [UserSave uid]"
  by (simp_all add: save_user_def)

lemma save_course_fields [simp]:
  "db_users (save_course cid c s) = db_users s"
  "db_courses (save_course cid c s) = (db_courses s)(cid \<mapsto> c)"
  "db_orders (save_course cid c s) = db_orders s"
  "db_notifications (save_course cid c s) = db_notifications s"
  "effects (save_course cid c s) = effects s @ [CourseSave cid]"
  by (simp_all add: save_course_def)

lemma create_notification_fields [simp]:
  "db_users (create_notification n s) = db_users s"
  "db_courses (create_notification n s) = db_courses s"
  "db_orders (create_notification n s) = db_orders s"
  "db_notifications (create_notification n s) = db_notifications s @ [n]"
  "effects (create_notification n s) = effects s @ [NotificationCreate]"
  by (simp_all add: create_notification_def)

lemma verify_console_fields [simp]:
  "db_users (verifyWebhookSignature_console cfg d sg s) = db_users s"
  "db_courses (verifyWebhookSignature_console cfg d sg s) = db_courses s"
  "db_orders (verifyWebhookSignature_console cfg d sg s) = db_orders s"
  "db_notifications (verifyWebhookSignature_console cfg d sg s) = db_notifications s"
  "side_effects (verifyWebhookSignature_console cfg d sg s) = side_effects s"
  by (simp_all add: verifyWebhookSignature_console_def side_effects_def split: jsval.splits)

lemma findOne_console [simp]:
  "findOne_orderCode v (console l m s) = findOne_orderCode v s"
  "findOne_orderCode v (verifyWebhookSignature_console cfg d sg s) = findOne_orderCode v s"
  "findOne_orderCode v (emit e s) = findOne_orderCode v s"
  "findOne_id p (console l m s) = findOne_id p s"
  "findOne_id p (emit e s) = findOne_id p s"
  by (simp_all add: findOne_orderCode_def findOne_id_def)

lemma find_user_console [simp]:
  "find_user u (console l m s) = find_user u s"
  "find_user u (verifyWebhookSignature_console cfg d sg s) = find_user u s"
  "find_user u (emit e s) = find_user u s"
  by (simp_all add: find_user_def split: option.splits)

lemma find_user_cong: "db_users s' = db_users s \<Longrightarrow> find_user u s' = find_user u s"
  by (simp add: find_user_def split: option.splits)

lemma findOne_id_stores [simp]:
  "findOne_id p (save_user uid u s) = findOne_id p s"
  "findOne_id p (save_course cid c s) = findOne_id p s"
  "findOne_id p (create_notification n s) = findOne_id p s"
  by (simp_all add: findOne_id_def)

lemma side_effects_simps [simp]:
  "side_effects (console l m s) = side_effects s"
  "side_effects (emit e s) = side_effects s @ (if is_console e then [] else [e])"
  "side_effects (save_order i ord s) = side_effects s @ [OrderSave i]"
  "side_effects (create_order ord s) = side_effects s @ [OrderCreate]"
  "side_effects (save_user uid u s) = side_effects s @ [UserSave uid]"
  "side_effects (save_course cid c s) = side_effects s @ [CourseSave cid]"
  "side_effects (create_notification n s) = side_effects s @ [NotificationCreate]"
  by (simp_all add: side_effects_def)

lemma no_side_effects_trans:
  "no_side_effects s s1 \<Longrightarrow> no_side_effects s1 s2 \<Longrightarrow> no_side_effects s s2"
  by (simp add: no_side_effects_def)

subsection \<open>Looking orders up\<close>

lemma find_index_Some: "find_index P xs = Some i \<Longrightarrow> i < length xs \<and> P (xs ! i)"
  by (induction xs arbitrary: i) (auto split: if_splits)

lemma find_index_append: "find_index P xs = Some i \<Longrightarrow> find_index P (xs @ ys) = Some i"
  by (induction xs arbitrary: i) (auto split: if_splits)

lemma find_index_update: "P y = P (xs ! j) \<Longrightarrow> find_index P (xs[j := y]) = find_index P xs"
proof (induction xs arbitrary: j)
  case Nil
  then show ?case by simp
next
  case (Cons x xs)
  then show ?case by (cases j) auto
qed

lemma has_orderCode_set_paid [simp]: "has_orderCode v (set_paid ord) = has_orderCode v ord"
  by (simp add: has_orderCode_def set_paid_def split: option.splits)

lemma is_paid_set_paid [simp]: "is_paid (set_paid ord)"
  by (simp add: is_paid_def set_paid_def)

lemma set_paid_fields [simp]:
  "courseId (set_paid ord) = courseId ord" "userId (set_paid ord) = userId ord"
  by (simp_all add: set_paid_def)

subsection \<open>The paths through the PayOS webhook\<close>

lemma emit_payment_success_fields [simp]:
  "db_users (emit_payment_success w s) = db_users s"
  "db_courses (emit_payment_success w s) = db_courses s"
  "db_orders (emit_payment_success w s) = db_orders s"
  "db_notifications (emit_payment_success w s) = db_notifications s"
  "side_effects (emit_payment_success w s) = side_effects s @
     (if socket_initialised w then [SocketEmit ''paymentSuccess'', SocketEmit ''newNotification'']
      else [])"
  by (simp_all add: emit_payment_success_def)

lemma payos_grant_fields:
  "db_orders (payos_grant w i ord cid crs uid usr s) = (db_orders s)[i := set_paid ord]"
  "db_users (payos_grant w i ord cid crs uid usr s) =
     (if cid \<notin> set (courses usr) then (db_users s)(uid \<mapsto> usr\<lparr>courses := courses usr @ [cid]\<rparr>)
      else db_users s)"
  "db_courses (payos_grant w i ord cid crs uid usr s) =
     (db_courses s)(cid \<mapsto> crs\<lparr>purchased := Some ((case purchased crs of None \<Rightarrow> 0 | Some n \<Rightarrow> n) + 1)\<rparr>)"
  "db_notifications (payos_grant w i ord cid crs uid usr s) =
     db_notifications s @ [\<lparr>n_userId = Some uid, n_title = ''New Order'',
                            n_message = ''You have a new order for '' @ name crs\<rparr>]"
  "side_effects (payos_grant w i ord cid crs uid usr s) =
     side_effects s @ [OrderSave i] @ (if cid \<notin> set (courses usr) then [UserSave uid] else [])
       @ [SendMail (email usr), NotificationCreate, CourseSave cid]
       @ (if socket_initialised w then [SocketEmit ''paymentSuccess'', SocketEmit ''newNotification'']
          else [])"
  by (simp_all add: payos_grant_def Let_def)

lemma payos_grant_mail:
  "payos_grant (w\<lparr>sendMail := m\<rparr>) i ord cid crs uid usr s = payos_grant w i ord cid crs uid usr s"
  by (simp add: payos_grant_def emit_payment_success_def)

lemma payOSWebhook_grant:
  assumes "truthy (request_signature req)"
    and "verifyWebhookSignature cfg (Some (request_data req)) (request_signature req)"
    and "findOne_orderCode (get (request_data req) ''orderCode'') s = Some i"
    and "\<not> is_paid (db_orders s ! i)"
    and "isPaymentSuccess (request_data req)"
    and "db_courses s (courseId (db_orders s ! i)) = Some crs"
    and "userId (db_orders s ! i) = Some uid"
    and "db_users s uid = Some usr"
    and "courseId (db_orders s ! i) \<notin> set (courses usr)"
  shows "payOSWebhook cfg w req s =
           (Res 200 Success,
            payos_grant w i (db_orders s ! i) (courseId (db_orders s ! i)) crs uid usr
              (console Log ''Processing webhook:''
                (verifyWebhookSignature_console cfg (Some (request_data req)) (request_signature req)
                  (console Log ''Webhook received:'' s))))"
  using assms by (simp add: payOSWebhook_def Let_def find_user_def)

lemma payOSWebhook_no_order:
  assumes "truthy (request_signature req)"
    and "verifyWebhookSignature cfg (Some (request_data req)) (request_signature req)"
    and "findOne_orderCode (get (request_data req) ''orderCode'') s = None"
  shows "(\<exists>b. fst (payOSWebhook cfg w req s) = Res 200 b)
         \<and> no_side_effects s (snd (payOSWebhook cfg w req s))"
  using assms by (simp add: payOSWebhook_def Let_def no_side_effects_def)

lemma payOSWebhook_already_paid:
  assumes "truthy (request_signature req)"
    and "verifyWebhookSignature cfg (Some (request_data req)) (request_signature req)"
    and "findOne_orderCode (get (request_data req) ''orderCode'') s = Some i"
    and "is_paid (db_orders s ! i)"
  shows "fst (payOSWebhook cfg w req s) = Res 200 (SuccessMessage ''Order already processed'')
         \<and> no_side_effects s (snd (payOSWebhook cfg w req s))"
  using assms by (simp add: payOSWebhook_def Let_def no_side_effects_def)

lemma payOSWebhook_already_owned:
  assumes "truthy (request_signature req)"
    and "verifyWebhookSignature cfg (Some (request_data req)) (request_signature req)"
    and "findOne_orderCode (get (request_data req) ''orderCode'') s = Some i"
    and "\<not> is_paid (db_orders s ! i)"
    and "isPaymentSuccess (request_data req)"
    and "db_courses s (courseId (db_orders s ! i)) = Some crs"
    and "userId (db_orders s ! i) = Some uid"
    and "db_users s uid = Some usr"
    and "courseId (db_orders s ! i) \<in> set (courses usr)"
  shows "payOSWebhook cfg w req s =
           (Res 200 (SuccessMessage ''Course already added''),
            save_order i (set_paid (db_orders s ! i))
              (console Log ''User already has this course''
                (console Log ''Processing webhook:''
                  (verifyWebhookSignature_console cfg (Some (request_data req))
                    (request_signature req) (console Log ''Webhook received:'' s)))))"
  using assms by (simp add: payOSWebhook_def Let_def find_user_def)

lemma payOSWebhook_not_success:
  assumes "truthy (request_signature req)"
    and "verifyWebhookSignature cfg (Some (request_data req)) (request_signature req)"
    and "findOne_orderCode (get (request_data req) ''orderCode'') s = Some i"
    and "\<not> is_paid (db_orders s ! i)"
    and "\<not> isPaymentSuccess (request_data req)"
  shows "fst (payOSWebhook cfg w req s) = Res 200 Success
         \<and> no_side_effects s (snd (payOSWebhook cfg w req s))"
  using assms by (simp add: payOSWebhook_def Let_def no_side_effects_def)

lemma payOSWebhook_not_found:
  assumes "truthy (request_signature req)"
    and "verifyWebhookSignature cfg (Some (request_data req)) (request_signature req)"
    and "findOne_orderCode (get (request_data req) ''orderCode'') s = Some i"
    and "\<not> is_paid (db_orders s ! i)"
    and "isPaymentSuccess (request_data req)"
    and "db_courses s (courseId (db_orders s ! i)) = None
         \<or> find_user (userId (db_orders s ! i)) s = None"
  shows "fst (payOSWebhook cfg w req s) = Res 404 (ErrorBody ''Course or user not found'')
         \<and> no_side_effects s (snd (payOSWebhook cfg w req s))"
  using assms
  by (auto simp: payOSWebhook_def Let_def no_side_effects_def split: option.splits)

lemma deliver_paid:
  assumes "truthy (request_signature req)"
    and "verifyWebhookSignature cfg (Some (request_data req)) (request_signature req)"
    and "findOne_orderCode (get (request_data req) ''orderCode'') s = Some i"
    and "is_paid (db_orders s ! i)"
  shows "no_side_effects s (deliver cfg req ws s)"
  using assms(3,4)
proof (induction ws arbitrary: s)
  case Nil
  then show ?case by (simp add: no_side_effects_def)
next
  case (Cons w ws)
  let ?s1 = "snd (payOSWebhook cfg w req s)"
  have n: "no_side_effects s ?s1"
    using payOSWebhook_already_paid [OF assms(1,2) Cons.prems] by simp
  then have o: "db_orders ?s1 = db_orders s" by (simp add: no_side_effects_def)
  have "no_side_effects ?s1 (deliver cfg req ws ?s1)"
    using Cons.prems o by (intro Cons.IH) (simp_all add: findOne_orderCode_def)
  with n show ?case by (simp add: no_side_effects_trans)
qed

subsection \<open>The grant of the Stripe webhook\<close>

lemma stripe_grant_fields:
  "db_orders (stripe_grant ev cid crs uid usr s) =
     db_orders s @ [\<lparr>courseId = cid, userId = Some uid,
                     payment_info = Some \<lparr>pi_id = Some (session_id ev), pi_orderCode = None,
                                            pi_status = Some (session_payment_status ev)\<rparr>\<rparr>]"
  "db_users (stripe_grant ev cid crs uid usr s) =
     (if cid \<notin> set (courses usr) then (db_users s)(uid \<mapsto> usr\<lparr>courses := courses usr @ [cid]\<rparr>)
      else db_users s)"
  "db_courses (stripe_grant ev cid crs uid usr s) =
     (db_courses s)(cid \<mapsto> crs\<lparr>purchased := Some ((case purchased crs of None \<Rightarrow> 0 | Some n \<Rightarrow> n) + 1)\<rparr>)"
  "db_notifications (stripe_grant ev cid crs uid usr s) =
     db_notifications s @ [\<lparr>n_userId = Some uid, n_title = ''New Order'',
                            n_message = ''You have a new order for '' @ name crs\<rparr>]"
  "side_effects (stripe_grant ev cid crs uid usr s) =
     side_effects s @ [OrderCreate] @ (if cid \<notin> set (courses usr) then [UserSave uid] else [])
       @ [SendMail (email usr), NotificationCreate, CourseSave cid]"
  by (simp_all add: stripe_grant_def Let_def)

lemma stripeWebhook_grant:
  assumes "\<not> unset (STRIPE_WEBHOOK_SECRET cfg)"
    and "stripe_constructEvent w = Inr ev"
    and "ev_type ev = ''checkout.session.completed''"
    and "metadata_courseId ev = Some cid" and "cid \<noteq> []"
    and "metadata_userId ev = Some uid" and "uid \<noteq> []"
    and "findOne_id (session_id ev) s = None"
    and "db_courses s cid = Some crs"
    and "db_users s uid = Some usr"
    and "cid \<notin> set (courses usr)"
  shows "stripeWebhook cfg w s = (Res 200 Received, stripe_grant ev cid crs uid usr s)"
  using assms by (simp add: stripeWebhook_def unset_def find_user_def)

subsection \<open>How a request changes the order collection\<close>

lemma orders_step_same: "db_orders s' = db_orders s \<Longrightarrow> orders_step s s'"
  by (simp add: orders_step_def)

lemma orders_step_cong: "db_orders s1 = db_orders s \<Longrightarrow> orders_step s1 s' \<Longrightarrow> orders_step s s'"
  by (simp add: orders_step_def)

lemma payOSWebhook_orders_step: "orders_step s (snd (payOSWebhook cfg w req s))"
  by (auto simp: orders_step_def payOSWebhook_def Let_def payos_grant_fields
      split: option.splits prod.splits)

lemma check_payment_intent_orders:
  "check_payment_intent w pinfo s = Inl (r, s') \<Longrightarrow> db_orders s' = db_orders s"
  "check_payment_intent w pinfo s = Inr (p, s') \<Longrightarrow> db_orders s' = db_orders s"
  by (auto simp: check_payment_intent_def Let_def split: option.splits sum.splits if_splits)

lemma createOrder_grant_orders_step:
  "orders_step s (snd (createOrder_grant pid usr cid crs pinfo s))"
  by (auto simp: orders_step_def createOrder_grant_def Let_def newOrder_def
      split: option.splits prod.splits)

lemma createOrder_orders_step: "orders_step s (snd (createOrder w req s))"
proof (cases "check_payment_intent w (req_payment_info req)
                (console Log ''payment_info'' (console Log ''courseId'' s))")
  case (Inl a)
  then show ?thesis
    using check_payment_intent_orders(1) [of w "req_payment_info req" _ "fst a" "snd a"]
    by (simp add: orders_step_def createOrder_def Let_def)
next
  case (Inr b)
  obtain p s2 where b: "b = (p, s2)" by (cases b)
  have o: "db_orders s2 = db_orders s"
    using check_payment_intent_orders(2) [OF Inr [unfolded b]] by simp
  show ?thesis
    unfolding createOrder_def Let_def Inr b
    by (auto split: option.splits prod.splits simp: o
        intro!: orders_step_same orders_step_cong [OF _ createOrder_grant_orders_step])
qed

lemma stripeWebhook_orders_step: "orders_step s (snd (stripeWebhook cfg w s))"
  by (auto simp: orders_step_def stripeWebhook_def stripe_grant_def Let_def
      split: option.splits prod.splits sum.splits)

lemma createCheckoutSession_orders_step: "orders_step s (snd (createCheckoutSession w req s))"
  by (auto simp: orders_step_def createCheckoutSession_def Let_def
      split: option.splits prod.splits sum.splits)

lemma createPayOSPayment_orders_step: "orders_step s (snd (createPayOSPayment cfg w req s))"
  by (auto simp: orders_step_def createPayOSPayment_def Let_def
      split: option.splits prod.splits sum.splits axios_result.splits)

lemma handle_orders_step: "orders_step s (snd (handle cfg op s))"
  by (cases op)
     (simp_all add: payOSWebhook_orders_step createOrder_orders_step stripeWebhook_orders_step
       createCheckoutSession_orders_step createPayOSPayment_orders_step)

lemma orders_step_paid:
  assumes "orders_step s s'" and "i < length (db_orders s)" and "is_paid (db_orders s ! i)"
  shows "i < length (db_orders s') \<and> db_orders s' ! i = db_orders s ! i"
proof -
  have "j \<noteq> i" if "\<not> is_paid (db_orders s ! j)" for j
    using that assms(3) by auto
  then show ?thesis
    using assms(1,2) by (auto simp: orders_step_def nth_append)
qed

lemma orders_step_find:
  assumes "orders_step s s'" and "find_index P (db_orders s) = Some i"
    and "\<And>ord. P (set_paid ord) = P ord"
  shows "find_index P (db_orders s') = Some i"
  using assms by (auto simp: orders_step_def find_index_append find_index_update)

subsection \<open>Facts about the sample data\<close>

lemmas eval_defs = skip_enabled_def unset_def request_signature_def request_data_def
  toLowerCase_def lower_char_def webhook_message_def push_keyValues_def Object_keys_def get_def
  normalize_value_def string_of_nat.simps

lemma message_data0:
  "webhook_message data0 = ''amount=49&code=00&desc=success&orderCode=1700000000123''"
  by (simp add: data0_def eval_defs)

lemma lower_signature0:
  "toLowerCase ''K:AMOUNT=49&CODE=00&DESC=SUCCESS&ORDERCODE=1700000000123''
     = ''k:amount=49&code=00&desc=success&ordercode=1700000000123''"
  "toLowerCase ''k:amount=49&code=00&desc=success&orderCode=1700000000123''
     = ''k:amount=49&code=00&desc=success&ordercode=1700000000123''"
  by (simp_all add: toLowerCase_def lower_char_def)

lemma cfg0_fields:
  "PAYOS_CHECKSUM_KEY cfg0 = Some ''k''" "\<not> skip_enabled cfg0"
  "hmac_sha256_hex cfg0 key msg = key @ '':'' @ msg"
  by (simp_all add: cfg0_def skip_enabled_def)

lemma webhook0_valid:
  "request_signature webhook0 = JStr ''K:AMOUNT=49&CODE=00&DESC=SUCCESS&ORDERCODE=1700000000123''"
  "request_data webhook0 = data0"
  "verifyWebhookSignature cfg0 (Some data0)
     (JStr ''K:AMOUNT=49&CODE=00&DESC=SUCCESS&ORDERCODE=1700000000123'')"
  by (simp_all add: webhook0_def request_signature_def request_data_def verifyWebhookSignature_def
      cfg0_fields message_data0 lower_signature0)

lemma webhook_desc_valid:
  "request_data webhook_desc = data_desc"
  "request_signature webhook_desc
     = JStr ''k:code=01&desc=success&orderCode=1700000000123&status=CANCELLED''"
  "verifyWebhookSignature cfg0 (Some data_desc)
     (JStr ''k:code=01&desc=success&orderCode=1700000000123&status=CANCELLED'')"
  "get data_desc ''orderCode'' = JNum 1700000000123"
  "get data_desc ''code'' = JStr ''01''" "get data_desc ''desc'' = JStr ''success''"
  "get data_desc ''status'' = JStr ''CANCELLED''"
  by (simp_all add: webhook_desc_def data_desc_def verifyWebhookSignature_def cfg0_fields eval_defs)

lemma webhook_fail_valid:
  "request_data webhook_fail = data_fail"
  "request_signature webhook_fail
     = JStr ''k:code=01&desc=failed&orderCode=1700000000123&status=CANCELLED''"
  "verifyWebhookSignature cfg0 (Some data_fail)
     (JStr ''k:code=01&desc=failed&orderCode=1700000000123&status=CANCELLED'')"
  "get data_fail ''orderCode'' = JNum 1700000000123"
  "get data_fail ''code'' = JStr ''01''" "get data_fail ''desc'' = JStr ''failed''"
  "get data_fail ''status'' = JStr ''CANCELLED''"
  by (simp_all add: webhook_fail_def data_fail_def verifyWebhookSignature_def cfg0_fields eval_defs)

lemma data0_fields:
  "get data0 ''orderCode'' = JNum 1700000000123" "isPaymentSuccess data0"
  by (simp_all add: data0_def get_def isPaymentSuccess_def)

lemma world0_fields:
  "socket_initialised world0" "sendMail world0 = None" "ejs_renderFile world0 = None"
  "stripe_paymentIntents_retrieve world0 pid = Inr ''requires_payment_method''"
  "stripe_constructEvent world0 = Inr ev0"
  by (simp_all add: world0_def)

lemma world_fields:
  "stripe_paymentIntents_retrieve world_ok pid = Inr ''succeeded''"
  "ejs_renderFile world_ok = None" "sendMail world_ok = None"
  "stripe_paymentIntents_retrieve world_mail_down pid = Inr ''succeeded''"
  "ejs_renderFile world_mail_down = None" "sendMail world_mail_down = Some ''SMTP down''"
  by (simp_all add: world_ok_def world_mail_down_def world0_def)

lemma state0_fields:
  "db_orders state0 = [pending0]" "db_orders state_owned = [pending0]"
  "findOne_orderCode (JNum 1700000000123) state0 = Some 0"
  "findOne_orderCode (JNum 1700000000123) state_owned = Some 0"
  "\<not> is_paid pending0" "courseId pending0 = ''c1''" "userId pending0 = Some ''u1''"
  "db_courses state0 ''c1'' = Some \<lparr>name = ''Course'', purchased = Some 0\<rparr>"
  "db_courses state_owned ''c1'' = Some \<lparr>name = ''Course'', purchased = Some 0\<rparr>"
  "db_users state0 ''u1'' = Some \<lparr>email = ''u1@mail'', courses = []\<rparr>"
  "db_users state_owned ''u1'' = Some \<lparr>email = ''u1@mail'', courses = [''c1'']\<rparr>"
  "db_notifications state0 = []" "db_notifications state_owned = []"
  "effects state0 = []" "effects state_owned = []"
  by (simp_all add: state0_def state_owned_def pending0_def findOne_orderCode_def
      has_orderCode_def is_paid_def)

lemma state_fresh_fields:
  "db_orders state_fresh = []" "db_notifications state_fresh = []" "effects state_fresh = []"
  "db_courses state_fresh ''c1'' = Some \<lparr>name = ''Course'', purchased = Some 0\<rparr>"
  "db_users state_fresh ''u1'' = Some \<lparr>email = ''u1@mail'', courses = []\<rparr>"
  "findOne_id pid state_fresh = None"
  "find_user (Some ''u1'') state_fresh = Some (''u1'', \<lparr>email = ''u1@mail'', courses = []\<rparr>)"
  "side_effects state_fresh = []" "purchased_count state_fresh ''c1'' = 0"
  "owned state_fresh ''u1'' = []"
  by (simp_all add: state_fresh_def state0_def findOne_id_def find_user_def side_effects_def
      purchased_count_def owned_def)

lemma state_absent_fields:
  "db_orders state_absent = []" "db_notifications state_absent = []"
  "db_courses state_absent ''c1'' = Some \<lparr>name = ''Course'', purchased = None\<rparr>"
  "findOne_id pid state_absent = None"
  "find_user (Some ''u1'') state_absent = Some (''u1'', \<lparr>email = ''u1@mail'', courses = []\<rparr>)"
  by (simp_all add: state_absent_def state_fresh_def state0_def findOne_id_def find_user_def)

lemma state_paid_fields:
  "db_orders state_paid = [set_paid pending0]"
  "findOne_orderCode (JNum 1700000000123) state_paid = Some 0"
  by (simp_all add: state_paid_def state0_def findOne_orderCode_def has_orderCode_def
      set_paid_def pending0_def)

lemma state_nocourse_fields:
  "db_orders state_nocourse = [pending0]"
  "findOne_orderCode (JNum 1700000000123) state_nocourse = Some 0"
  "db_courses state_nocourse cid = None"
  by (simp_all add: state_nocourse_def state0_def findOne_orderCode_def has_orderCode_def
      pending0_def)

lemma webhook_desc_on_samples:
  "truthy (request_signature webhook_desc)"
  "verifyWebhookSignature cfg0 (Some (request_data webhook_desc)) (request_signature webhook_desc)"
  "findOne_orderCode (get (request_data webhook_desc) ''orderCode'') state0 = Some 0"
  "findOne_orderCode (get (request_data webhook_desc) ''orderCode'') state_owned = Some 0"
  "findOne_orderCode (get (request_data webhook_desc) ''orderCode'') state_nocourse = Some 0"
  "get (request_data webhook_desc) ''code'' = JStr ''01''"
  "get (request_data webhook_desc) ''desc'' = JStr ''success''"
  "get (request_data webhook_desc) ''status'' = JStr ''CANCELLED''"
  "isPaymentSuccess (request_data webhook_desc)"
  by (simp_all add: webhook_desc_valid state0_fields state_nocourse_fields isPaymentSuccess_def)

lemma webhook_fail_on_samples:
  "truthy (request_signature webhook_fail)"
  "verifyWebhookSignature cfg0 (Some (request_data webhook_fail)) (request_signature webhook_fail)"
  "findOne_orderCode (get (request_data webhook_fail) ''orderCode'') state0 = Some 0"
  "get (request_data webhook_fail) ''code'' = JStr ''01''"
  "get (request_data webhook_fail) ''desc'' = JStr ''failed''"
  "get (request_data webhook_fail) ''status'' = JStr ''CANCELLED''"
  by (simp_all add: webhook_fail_valid state0_fields)

lemma sample_counts:
  "side_effects state0 = []" "side_effects state_owned = []"
  "purchased_count state0 ''c1'' = 0" "purchased_count state_owned ''c1'' = 0"
  by (simp_all add: side_effects_def purchased_count_def state0_fields)

lemma webhook0_on_state0:
  "truthy (request_signature webhook0)"
  "verifyWebhookSignature cfg0 (Some (request_data webhook0)) (request_signature webhook0)"
  "findOne_orderCode (get (request_data webhook0) ''orderCode'') state0 = Some 0"
  "\<not> is_paid (db_orders state0 ! 0)"
  "isPaymentSuccess (request_data webhook0)"
  "db_courses state0 (courseId (db_orders state0 ! 0)) = Some \<lparr>name = ''Course'', purchased = Some 0\<rparr>"
  "userId (db_orders state0 ! 0) = Some ''u1''"
  "db_users state0 ''u1'' = Some \<lparr>email = ''u1@mail'', courses = []\<rparr>"
  "courseId (db_orders state0 ! 0) \<notin> set (courses \<lparr>email = ''u1@mail'', courses = []\<rparr>)"
  by (simp_all add: webhook0_valid data0_fields state0_fields)

lemma webhook0_on_state_owned:
  "findOne_orderCode (get (request_data webhook0) ''orderCode'') state_owned = Some 0"
  "\<not> is_paid (db_orders state_owned ! 0)"
  "db_courses state_owned (courseId (db_orders state_owned ! 0))
     = Some \<lparr>name = ''Course'', purchased = Some 0\<rparr>"
  "userId (db_orders state_owned ! 0) = Some ''u1''"
  "db_users state_owned ''u1'' = Some \<lparr>email = ''u1@mail'', courses = [''c1'']\<rparr>"
  "courseId (db_orders state_owned ! 0) \<in> set (courses \<lparr>email = ''u1@mail'', courses = [''c1'']\<rparr>)"
  by (simp_all add: webhook0_valid data0_fields state0_fields)

subsection \<open>The synchronous confirmation and the provider\<close>

text \<open>
  C1, as the code has it. For a confirmation request whose \<^verbatim>\<open>payment_info\<close> carries an
  \<^verbatim>\<open>id\<close>: unless the card provider reports the PaymentIntent of that id as "succeeded",
  \<^verbatim>\<open>createOrder\<close> leaves the stores as they are (no course added, no order created, no
  notification, no counter change); and when no order exists yet for the id and the provider
  reports another status, the answer is the 400 error "Payment not authorized", the call to
  the provider being all that happened. A request without \<^verbatim>\<open>payment_info\<close>, or with one that
  has no \<^verbatim>\<open>id\<close>, is not checked with the provider: that is the counterexample below.
\<close>

theorem createOrder_checks_provider:
  assumes "req_payment_info req = Some p" and "pi_id p = Some pid"
  shows "(stripe_paymentIntents_retrieve w pid \<noteq> Inr ''succeeded''
            \<longrightarrow> same_stores s (snd (createOrder w req s)))
         \<and> (findOne_id pid s = None \<and> stripe_paymentIntents_retrieve w pid = Inr status
              \<and> status \<noteq> ''succeeded''
            \<longrightarrow> fst (createOrder w req s) = Next ''Payment not authorized'' 400
                \<and> same_stores s (snd (createOrder w req s))
                \<and> side_effects (snd (createOrder w req s))
                    = side_effects s @ [ProviderCall ''stripe.paymentIntents.retrieve''])"
  using assms
  by (auto simp: createOrder_def check_payment_intent_def Let_def same_stores_def
      split: option.splits sum.splits)

theorem createOrder_checks_provider_witness:
  "req_payment_info req_pi = Some \<lparr>pi_id = Some ''pi_1'', pi_orderCode = None,
                                     pi_status = Some ''succeeded''\<rparr>
   \<and> findOne_id ''pi_1'' state_fresh = None
   \<and> stripe_paymentIntents_retrieve world0 ''pi_1'' = Inr ''requires_payment_method''
   \<and> fst (createOrder world0 req_pi state_fresh) = Next ''Payment not authorized'' 400
   \<and> same_stores state_fresh (snd (createOrder world0 req_pi state_fresh))"
proof -
  have p: "req_payment_info req_pi = Some \<lparr>pi_id = Some ''pi_1'', pi_orderCode = None,
                                     pi_status = Some ''succeeded''\<rparr>"
    by (simp add: req_pi_def)
  have i: "pi_id \<lparr>pi_id = Some ''pi_1'', pi_orderCode = None, pi_status = Some ''succeeded''\<rparr>
             = Some ''pi_1''" by simp
  note t = createOrder_checks_provider [OF p i, where w = world0 and s = state_fresh
      and status = "''requires_payment_method''"]
  show ?thesis using p t by (simp add: state_fresh_fields world0_fields)
qed

text \<open>
  A request whose \<^verbatim>\<open>payment_info\<close> has no \<^verbatim>\<open>id\<close>, while the provider would report every
  PaymentIntent as unpaid: the course is granted and the order created, and the provider is
  never asked.
\<close>

theorem createOrder_unverified_counterexample:
  "stripe_paymentIntents_retrieve world0 ''pi_1'' = Inr ''requires_payment_method''
   \<and> fst (createOrder world0 req_no_id state_fresh)
       = NewOrderResponse \<lparr>courseId = ''c1'', userId = Some ''u1'',
                            payment_info = req_payment_info req_no_id\<rparr>
   \<and> owned (snd (createOrder world0 req_no_id state_fresh)) ''u1'' = [''c1'']
   \<and> length (db_orders (snd (createOrder world0 req_no_id state_fresh))) = 1
   \<and> side_effects (snd (createOrder world0 req_no_id state_fresh))
       = [SendMail ''u1@mail'', UserSave ''u1'', NotificationCreate, CourseSave ''c1'', OrderCreate]"
  by (simp add: createOrder_def check_payment_intent_def createOrder_grant_def newOrder_def
      Let_def req_no_id_def world0_fields state_fresh_fields owned_def)

subsection \<open>Repeated webhook deliveries\<close>

text \<open>
  C2, as the code has it. For a PayOS webhook with a valid signature: when no order exists for
  its order code, or the order is already \<^verbatim>\<open>PAID\<close>, the answer is 200 and nothing is done.
  Hence, for a pending order whose course and user exist and whose user does not own the
  course yet, delivering the same success webhook any number of times (at least once) does
  what one delivery does: one write that marks the order \<^verbatim>\<open>PAID\<close>, the counter up by one,
  one more notification, and the course once in the user's list. When the user owns the
  course already, the order is marked \<^verbatim>\<open>PAID\<close> and no counter or notification follows: that is
  the counterexample below.
\<close>

theorem payOSWebhook_idempotent:
  assumes "truthy (request_signature req)"
    and "verifyWebhookSignature cfg (Some (request_data req)) (request_signature req)"
  shows "(findOne_orderCode (get (request_data req) ''orderCode'') s = None
            \<or> (\<exists>j. findOne_orderCode (get (request_data req) ''orderCode'') s = Some j
                    \<and> is_paid (db_orders s ! j))
          \<longrightarrow> (\<exists>b. fst (payOSWebhook cfg w req s) = Res 200 b)
              \<and> no_side_effects s (snd (payOSWebhook cfg w req s)))
       \<and> (findOne_orderCode (get (request_data req) ''orderCode'') s = Some i
            \<and> \<not> is_paid (db_orders s ! i) \<and> isPaymentSuccess (request_data req)
            \<and> db_courses s (courseId (db_orders s ! i)) = Some crs
            \<and> userId (db_orders s ! i) = Some uid \<and> db_users s uid = Some usr
            \<and> courseId (db_orders s ! i) \<notin> set (courses usr)
          \<longrightarrow> fst (payOSWebhook cfg w req s) = Res 200 Success
              \<and> no_side_effects (snd (payOSWebhook cfg w req s)) (deliver cfg req (w # ws) s)
              \<and> is_paid (db_orders (deliver cfg req (w # ws) s) ! i)
              \<and> count_list (side_effects (deliver cfg req (w # ws) s)) (OrderSave i)
                  = count_list (side_effects s) (OrderSave i) + 1
              \<and> purchased_count (deliver cfg req (w # ws) s) (courseId (db_orders s ! i))
                  = purchased_count s (courseId (db_orders s ! i)) + 1
              \<and> length (db_notifications (deliver cfg req (w # ws) s))
                  = length (db_notifications s) + 1
              \<and> count_list (owned (deliver cfg req (w # ws) s) uid) (courseId (db_orders s ! i))
                  = 1)"
proof (intro conjI impI)
  assume "findOne_orderCode (get (request_data req) ''orderCode'') s = None
            \<or> (\<exists>j. findOne_orderCode (get (request_data req) ''orderCode'') s = Some j
                    \<and> is_paid (db_orders s ! j))"
  then show "\<exists>b. fst (payOSWebhook cfg w req s) = Res 200 b"
    and "no_side_effects s (snd (payOSWebhook cfg w req s))"
    using payOSWebhook_no_order [OF assms] payOSWebhook_already_paid [OF assms] by auto
next
  assume h: "findOne_orderCode (get (request_data req) ''orderCode'') s = Some i
            \<and> \<not> is_paid (db_orders s ! i) \<and> isPaymentSuccess (request_data req)
            \<and> db_courses s (courseId (db_orders s ! i)) = Some crs
            \<and> userId (db_orders s ! i) = Some uid \<and> db_users s uid = Some usr
            \<and> courseId (db_orders s ! i) \<notin> set (courses usr)"
  let ?cid = "courseId (db_orders s ! i)"
  let ?s1 = "snd (payOSWebhook cfg w req s)"
  let ?s' = "deliver cfg req (w # ws) s"
  have i: "i < length (db_orders s)"
    using h find_index_Some [of "has_orderCode (get (request_data req) ''orderCode'')" "db_orders s" i]
    by (simp add: findOne_orderCode_def)
  note g = payOSWebhook_grant [OF assms, of s i crs uid usr w]
  have s1: "?s1 = payos_grant w i (db_orders s ! i) ?cid crs uid usr
              (console Log ''Processing webhook:''
                (verifyWebhookSignature_console cfg (Some (request_data req)) (request_signature req)
                  (console Log ''Webhook received:'' s)))"
    using g h by simp
  show "fst (payOSWebhook cfg w req s) = Res 200 Success" using g h by simp
  have orders1: "db_orders ?s1 = (db_orders s)[i := set_paid (db_orders s ! i)]"
    by (simp add: s1 payos_grant_fields)
  have paid1: "is_paid (db_orders ?s1 ! i)" using i by (simp add: orders1)
  have find1: "findOne_orderCode (get (request_data req) ''orderCode'') ?s1 = Some i"
    using h by (simp add: findOne_orderCode_def orders1 find_index_update)
  have n: "no_side_effects ?s1 ?s'"
    using deliver_paid [OF assms find1 paid1, of ws] by simp
  then show "no_side_effects ?s1 ?s'" .
  show "is_paid (db_orders ?s' ! i)" using n paid1 by (simp add: no_side_effects_def)
  have "side_effects ?s' = side_effects ?s1" using n by (simp add: no_side_effects_def)
  then show "count_list (side_effects ?s') (OrderSave i) = count_list (side_effects s) (OrderSave i) + 1"
    using h by (simp add: s1 payos_grant_fields)
  have "db_courses ?s' = db_courses ?s1" using n by (simp add: no_side_effects_def)
  then show "purchased_count ?s' ?cid = purchased_count s ?cid + 1"
    using h by (simp add: purchased_count_def s1 payos_grant_fields)
  have "db_notifications ?s' = db_notifications ?s1" using n by (simp add: no_side_effects_def)
  then show "length (db_notifications ?s') = length (db_notifications s) + 1"
    by (simp add: s1 payos_grant_fields)
  have "db_users ?s' = db_users ?s1" using n by (simp add: no_side_effects_def)
  then show "count_list (owned ?s' uid) ?cid = 1"
    using h by (simp add: owned_def s1 payos_grant_fields)
qed

theorem payOSWebhook_idempotent_witness:
  "truthy (request_signature webhook0)
   \<and> verifyWebhookSignature cfg0 (Some (request_data webhook0)) (request_signature webhook0)
   \<and> findOne_orderCode (get (request_data webhook0) ''orderCode'') state0 = Some 0
   \<and> \<not> is_paid (db_orders state0 ! 0)
   \<and> is_paid (db_orders (deliver cfg0 webhook0 [world0, world0, world0] state0) ! 0)
   \<and> count_list (side_effects (deliver cfg0 webhook0 [world0, world0, world0] state0)) (OrderSave 0) = 1
   \<and> purchased_count (deliver cfg0 webhook0 [world0, world0, world0] state0) ''c1'' = 1
   \<and> length (db_notifications (deliver cfg0 webhook0 [world0, world0, world0] state0)) = 1
   \<and> count_list (owned (deliver cfg0 webhook0 [world0, world0, world0] state0) ''u1'') ''c1'' = 1
   \<and> findOne_orderCode (get (request_data webhook0) ''orderCode'') (state0\<lparr>db_orders := []\<rparr>) = None
   \<and> no_side_effects (state0\<lparr>db_orders := []\<rparr>)
        (snd (payOSWebhook cfg0 world0 webhook0 (state0\<lparr>db_orders := []\<rparr>)))"
proof -
  note h = webhook0_on_state0
  have pending:
    "findOne_orderCode (get (request_data webhook0) ''orderCode'') state0 = Some 0
     \<and> \<not> is_paid (db_orders state0 ! 0) \<and> isPaymentSuccess (request_data webhook0)
     \<and> db_courses state0 (courseId (db_orders state0 ! 0))
         = Some \<lparr>name = ''Course'', purchased = Some 0\<rparr>
     \<and> userId (db_orders state0 ! 0) = Some ''u1''
     \<and> db_users state0 ''u1'' = Some \<lparr>email = ''u1@mail'', courses = []\<rparr>
     \<and> courseId (db_orders state0 ! 0) \<notin> set (courses \<lparr>email = ''u1@mail'', courses = []\<rparr>)"
    using h by blast
  have none: "findOne_orderCode (get (request_data webhook0) ''orderCode'')
                (state0\<lparr>db_orders := []\<rparr>) = None"
    by (simp add: findOne_orderCode_def)
  note t1 = payOSWebhook_idempotent [where w = world0 and ws = "[world0, world0]", OF h(1,2),
      THEN conjunct2, THEN mp, OF pending]
  note t2 = payOSWebhook_idempotent [where w = world0, OF h(1,2), THEN conjunct1, THEN mp,
      OF disjI1, OF none]
  have c: "courseId (db_orders state0 ! 0) = ''c1''" by (simp add: state0_fields)
  show ?thesis
    using h(1-4) none t1 t2 unfolding c sample_counts by (simp add: state0_fields)
qed

text \<open>
  A pending order whose user owns the course already: the success webhook marks it \<^verbatim>\<open>PAID\<close>,
  and the counter and the notifications stay as they were.
\<close>

theorem payOSWebhook_owned_counterexample:
  "truthy (request_signature webhook0)
   \<and> verifyWebhookSignature cfg0 (Some (request_data webhook0)) (request_signature webhook0)
   \<and> isPaymentSuccess (request_data webhook0)
   \<and> findOne_orderCode (get (request_data webhook0) ''orderCode'') state_owned = Some 0
   \<and> \<not> is_paid (db_orders state_owned ! 0)
   \<and> is_paid (db_orders (deliver cfg0 webhook0 [world0] state_owned) ! 0)
   \<and> purchased_count (deliver cfg0 webhook0 [world0] state_owned) ''c1''
        = purchased_count state_owned ''c1''
   \<and> db_notifications (deliver cfg0 webhook0 [world0] state_owned) = []"
proof -
  note h = webhook0_on_state0(1,2) webhook0_on_state_owned(1,2) webhook0_on_state0(5)
    webhook0_on_state_owned(3-6)
  note r = payOSWebhook_already_owned [where w = world0, OF h]
  show ?thesis
    using h(1-5) by (simp add: r purchased_count_def state0_fields)
qed

subsection \<open>A paid order stays paid\<close>

text \<open>
  C3. Once the order of a payment identifier is \<^verbatim>\<open>PAID\<close>, it stays so whatever requests the
  subsystem serves afterwards (webhook deliveries for this or another identifier,
  confirmation calls, intent requests): the stored order is not changed at all, and the
  identifier keeps finding it.
\<close>

theorem paid_never_regresses:
  assumes "i < length (db_orders s)" and "is_paid (db_orders s ! i)"
  shows "i < length (db_orders (run cfg ops s))
         \<and> db_orders (run cfg ops s) ! i = db_orders s ! i
         \<and> is_paid (db_orders (run cfg ops s) ! i)
         \<and> (findOne_orderCode oc s = Some i \<longrightarrow> findOne_orderCode oc (run cfg ops s) = Some i)"
  using assms
proof (induction ops arbitrary: s)
  case Nil
  then show ?case by simp
next
  case (Cons op ops)
  let ?s1 = "snd (handle cfg op s)"
  have step: "orders_step s ?s1" by (rule handle_orders_step)
  have 1: "i < length (db_orders ?s1)" "db_orders ?s1 ! i = db_orders s ! i"
    using orders_step_paid [OF step Cons.prems] by simp_all
  have 2: "is_paid (db_orders ?s1 ! i)" using 1 Cons.prems by simp
  have f1: "findOne_orderCode oc s = Some i \<Longrightarrow> findOne_orderCode oc ?s1 = Some i"
    unfolding findOne_orderCode_def by (rule orders_step_find [OF step]) simp_all
  from Cons.IH [OF 1(1) 2] 1 f1 Cons.prems show ?case by simp
qed

theorem paid_never_regresses_witness:
  "0 < length (db_orders state_paid)
   \<and> is_paid (db_orders state_paid ! 0)
   \<and> findOne_orderCode (JNum 1700000000123) state_paid = Some 0
   \<and> is_paid (db_orders (run cfg0 ops0 state_paid) ! 0)
   \<and> findOne_orderCode (JNum 1700000000123) (run cfg0 ops0 state_paid) = Some 0"
proof -
  have l: "0 < length (db_orders state_paid)" by (simp add: state_paid_fields)
  have p: "is_paid (db_orders state_paid ! 0)" by (simp add: state_paid_fields)
  note t = paid_never_regresses [OF l p, where cfg = cfg0 and ops = ops0
      and oc = "JNum 1700000000123"]
  show ?thesis using l p t by (simp add: state_paid_fields)
qed

subsection \<open>A webhook that fails verification\<close>

text \<open>
  C4. A PayOS webhook that carries a signature which fails verification is answered 401
  "Invalid signature" and has no side effect: no order is changed, no course is granted, no
  notification is recorded, no counter is incremented and nothing is sent.
\<close>

theorem payOSWebhook_invalid_signature:
  assumes "truthy (request_signature req)"
    and "\<not> verifyWebhookSignature cfg (Some (request_data req)) (request_signature req)"
  shows "fst (payOSWebhook cfg w req s) = Res 401 (ErrorBody ''Invalid signature'')
         \<and> no_side_effects s (snd (payOSWebhook cfg w req s))"
  using assms by (simp add: payOSWebhook_def Let_def no_side_effects_def)

theorem payOSWebhook_invalid_signature_witness:
  "truthy (request_signature tampered0)
   \<and> \<not> verifyWebhookSignature cfg0 (Some (request_data tampered0)) (request_signature tampered0)
   \<and> fst (payOSWebhook cfg0 world0 tampered0 state0) = Res 401 (ErrorBody ''Invalid signature'')
   \<and> no_side_effects state0 (snd (payOSWebhook cfg0 world0 tampered0 state0))"
proof -
  have sig: "request_signature tampered0
               = JStr ''K:AMOUNT=49&CODE=00&DESC=SUCCESS&ORDERCODE=1700000000123''"
    by (simp add: tampered0_def webhook0_def request_signature_def)
  have t: "truthy (request_signature tampered0)" by (simp add: sig)
  have msg: "webhook_message (request_data tampered0)
               = ''amount=1&code=00&desc=success&orderCode=1700000000123''"
    by (simp add: tampered0_def webhook0_def eval_defs)
  have bad: "\<not> verifyWebhookSignature cfg0 (Some (request_data tampered0))
                 (request_signature tampered0)"
    by (simp add: verifyWebhookSignature_def cfg0_fields msg sig lower_signature0 toLowerCase_def)
  from t bad payOSWebhook_invalid_signature [OF t bad, of world0 state0] show ?thesis by simp
qed

subsection \<open>A failing mail transport\<close>

text \<open>
  C5, as the code has it. In both webhook handlers a failing mail send changes nothing: the
  answer and the whole state, console output included, are what they are when the send
  succeeds, so that in the grant the order still is \<^verbatim>\<open>PAID\<close> (PayOS) or created (Stripe), the
  user still gains the course, the notification is still recorded and the counter still goes
  up by one, and the answer still is 200. In \<^verbatim>\<open>createOrder\<close> the mail is sent before the
  grant, and a failing send ends the request of a known user without any change to the
  stores and without an order.
\<close>

theorem webhook_mail_failure_swallowed:
  "payOSWebhook cfg (w\<lparr>sendMail := Some msg\<rparr>) req s = payOSWebhook cfg (w\<lparr>sendMail := None\<rparr>) req s
   \<and> stripeWebhook cfg (w\<lparr>sendMail := Some msg\<rparr>) s = stripeWebhook cfg (w\<lparr>sendMail := None\<rparr>) s
   \<and> (truthy (request_signature req)
       \<and> verifyWebhookSignature cfg (Some (request_data req)) (request_signature req)
       \<and> findOne_orderCode (get (request_data req) ''orderCode'') s = Some i
       \<and> \<not> is_paid (db_orders s ! i) \<and> isPaymentSuccess (request_data req)
       \<and> db_courses s (courseId (db_orders s ! i)) = Some crs
       \<and> userId (db_orders s ! i) = Some uid \<and> db_users s uid = Some usr
       \<and> courseId (db_orders s ! i) \<notin> set (courses usr)
      \<longrightarrow> fst (payOSWebhook cfg (w\<lparr>sendMail := Some msg\<rparr>) req s) = Res 200 Success
          \<and> is_paid (db_orders (snd (payOSWebhook cfg (w\<lparr>sendMail := Some msg\<rparr>) req s)) ! i)
          \<and> owned (snd (payOSWebhook cfg (w\<lparr>sendMail := Some msg\<rparr>) req s)) uid
              = courses usr @ [courseId (db_orders s ! i)]
          \<and> length (db_notifications (snd (payOSWebhook cfg (w\<lparr>sendMail := Some msg\<rparr>) req s)))
              = length (db_notifications s) + 1
          \<and> purchased_count (snd (payOSWebhook cfg (w\<lparr>sendMail := Some msg\<rparr>) req s))
                (courseId (db_orders s ! i))
              = purchased_count s (courseId (db_orders s ! i)) + 1)
   \<and> (\<not> unset (STRIPE_WEBHOOK_SECRET cfg) \<and> stripe_constructEvent w = Inr ev
       \<and> ev_type ev = ''checkout.session.completed''
       \<and> metadata_courseId ev = Some cid \<and> cid \<noteq> [] \<and> metadata_userId ev = Some uid'
       \<and> uid' \<noteq> [] \<and> findOne_id (session_id ev) s = None \<and> db_courses s cid = Some crs'
       \<and> db_users s uid' = Some usr' \<and> cid \<notin> set (courses usr')
      \<longrightarrow> fst (stripeWebhook cfg (w\<lparr>sendMail := Some msg\<rparr>) s) = Res 200 Received
          \<and> length (db_orders (snd (stripeWebhook cfg (w\<lparr>sendMail := Some msg\<rparr>) s)))
              = length (db_orders s) + 1
          \<and> owned (snd (stripeWebhook cfg (w\<lparr>sendMail := Some msg\<rparr>) s)) uid'
              = courses usr' @ [cid]
          \<and> length (db_notifications (snd (stripeWebhook cfg (w\<lparr>sendMail := Some msg\<rparr>) s)))
              = length (db_notifications s) + 1
          \<and> purchased_count (snd (stripeWebhook cfg (w\<lparr>sendMail := Some msg\<rparr>) s)) cid
              = purchased_count s cid + 1)
   \<and> (find_user (req_user cr) s = Some (uid'', usr'')
      \<longrightarrow> same_stores s (snd (createOrder (w\<lparr>sendMail := Some msg\<rparr>) cr s))
          \<and> (\<forall>ord. fst (createOrder (w\<lparr>sendMail := Some msg\<rparr>) cr s) \<noteq> NewOrderResponse ord))"
proof (intro conjI impI)
  show "payOSWebhook cfg (w\<lparr>sendMail := Some msg\<rparr>) req s
          = payOSWebhook cfg (w\<lparr>sendMail := None\<rparr>) req s"
    unfolding payOSWebhook_def payos_grant_mail by (rule refl)
  show "stripeWebhook cfg (w\<lparr>sendMail := Some msg\<rparr>) s = stripeWebhook cfg (w\<lparr>sendMail := None\<rparr>) s"
    by (simp add: stripeWebhook_def)
next
  assume h: "truthy (request_signature req)
       \<and> verifyWebhookSignature cfg (Some (request_data req)) (request_signature req)
       \<and> findOne_orderCode (get (request_data req) ''orderCode'') s = Some i
       \<and> \<not> is_paid (db_orders s ! i) \<and> isPaymentSuccess (request_data req)
       \<and> db_courses s (courseId (db_orders s ! i)) = Some crs
       \<and> userId (db_orders s ! i) = Some uid \<and> db_users s uid = Some usr
       \<and> courseId (db_orders s ! i) \<notin> set (courses usr)"
  let ?w = "w\<lparr>sendMail := Some msg\<rparr>"
  have i: "i < length (db_orders s)"
    using h find_index_Some [of "has_orderCode (get (request_data req) ''orderCode'')" "db_orders s" i]
    by (simp add: findOne_orderCode_def)
  have g: "payOSWebhook cfg ?w req s =
           (Res 200 Success,
            payos_grant ?w i (db_orders s ! i) (courseId (db_orders s ! i)) crs uid usr
              (console Log ''Processing webhook:''
                (verifyWebhookSignature_console cfg (Some (request_data req)) (request_signature req)
                  (console Log ''Webhook received:'' s))))"
    using h by (intro payOSWebhook_grant) simp_all
  show "fst (payOSWebhook cfg ?w req s) = Res 200 Success" by (simp add: g)
  show "is_paid (db_orders (snd (payOSWebhook cfg ?w req s)) ! i)"
    using i by (simp add: g payos_grant_fields)
  show "owned (snd (payOSWebhook cfg ?w req s)) uid = courses usr @ [courseId (db_orders s ! i)]"
    using h by (simp add: g payos_grant_fields owned_def)
  show "length (db_notifications (snd (payOSWebhook cfg ?w req s)))
          = length (db_notifications s) + 1"
    by (simp add: g payos_grant_fields)
  show "purchased_count (snd (payOSWebhook cfg ?w req s)) (courseId (db_orders s ! i))
          = purchased_count s (courseId (db_orders s ! i)) + 1"
    using h by (simp add: g payos_grant_fields purchased_count_def)
next
  assume h: "\<not> unset (STRIPE_WEBHOOK_SECRET cfg) \<and> stripe_constructEvent w = Inr ev
       \<and> ev_type ev = ''checkout.session.completed''
       \<and> metadata_courseId ev = Some cid \<and> cid \<noteq> [] \<and> metadata_userId ev = Some uid'
       \<and> uid' \<noteq> [] \<and> findOne_id (session_id ev) s = None \<and> db_courses s cid = Some crs'
       \<and> db_users s uid' = Some usr' \<and> cid \<notin> set (courses usr')"
  let ?w = "w\<lparr>sendMail := Some msg\<rparr>"
  have g: "stripeWebhook cfg ?w s = (Res 200 Received, stripe_grant ev cid crs' uid' usr' s)"
    using h by (intro stripeWebhook_grant) simp_all
  show "fst (stripeWebhook cfg ?w s) = Res 200 Received" by (simp add: g)
  show "length (db_orders (snd (stripeWebhook cfg ?w s))) = length (db_orders s) + 1"
    by (simp add: g stripe_grant_fields)
  show "owned (snd (stripeWebhook cfg ?w s)) uid' = courses usr' @ [cid]"
    using h by (simp add: g stripe_grant_fields owned_def)
  show "length (db_notifications (snd (stripeWebhook cfg ?w s))) = length (db_notifications s) + 1"
    by (simp add: g stripe_grant_fields)
  show "purchased_count (snd (stripeWebhook cfg ?w s)) cid = purchased_count s cid + 1"
    using h by (simp add: g stripe_grant_fields purchased_count_def)
next
  assume h: "find_user (req_user cr) s = Some (uid'', usr'')"
  let ?w = "w\<lparr>sendMail := Some msg\<rparr>"
  show "same_stores s (snd (createOrder ?w cr s))"
  proof (cases "check_payment_intent ?w (req_payment_info cr)
                  (console Log ''payment_info'' (console Log ''courseId'' s))")
    case (Inl a)
    then show ?thesis
      by (auto simp: createOrder_def Let_def same_stores_def check_payment_intent_def
          split: option.splits sum.splits if_splits)
  next
    case (Inr b)
    obtain p s2 where b: "b = (p, s2)" by (cases b)
    have s2: "db_users s2 = db_users s" "db_courses s2 = db_courses s"
      "db_orders s2 = db_orders s" "db_notifications s2 = db_notifications s"
      using Inr unfolding b
      by (auto simp: check_payment_intent_def Let_def split: option.splits sum.splits if_splits)
    have u: "find_user (req_user cr) s2 = Some (uid'', usr'')"
      using h find_user_cong [OF s2(1)] by simp
    show ?thesis
      by (simp add: createOrder_def Let_def Inr b u s2 same_stores_def split: option.splits)
  qed
  show "\<forall>ord. fst (createOrder ?w cr s) \<noteq> NewOrderResponse ord"
  proof (cases "check_payment_intent ?w (req_payment_info cr)
                  (console Log ''payment_info'' (console Log ''courseId'' s))")
    case (Inl a)
    then show ?thesis
      by (auto simp: createOrder_def Let_def check_payment_intent_def
          split: option.splits sum.splits if_splits)
  next
    case (Inr b)
    obtain p s2 where b: "b = (p, s2)" by (cases b)
    have s2: "db_users s2 = db_users s"
      using Inr unfolding b
      by (auto simp: check_payment_intent_def Let_def split: option.splits sum.splits if_splits)
    have u: "find_user (req_user cr) s2 = Some (uid'', usr'')"
      using h find_user_cong [OF s2] by simp
    show ?thesis
      by (simp add: createOrder_def Let_def Inr b u split: option.splits)
  qed
qed

theorem webhook_mail_failure_swallowed_witness:
  "truthy (request_signature webhook0)
   \<and> verifyWebhookSignature cfg0 (Some (request_data webhook0)) (request_signature webhook0)
   \<and> findOne_orderCode (get (request_data webhook0) ''orderCode'') state0 = Some 0
   \<and> \<not> is_paid (db_orders state0 ! 0) \<and> isPaymentSuccess (request_data webhook0)
   \<and> fst (payOSWebhook cfg0 (world0\<lparr>sendMail := Some ''SMTP down''\<rparr>) webhook0 state0)
       = Res 200 Success
   \<and> is_paid (db_orders (snd (payOSWebhook cfg0 (world0\<lparr>sendMail := Some ''SMTP down''\<rparr>)
                                 webhook0 state0)) ! 0)
   \<and> stripe_constructEvent world0 = Inr ev0
   \<and> fst (stripeWebhook cfg0 (world0\<lparr>sendMail := Some ''SMTP down''\<rparr>) state0) = Res 200 Received
   \<and> owned (snd (stripeWebhook cfg0 (world0\<lparr>sendMail := Some ''SMTP down''\<rparr>) state0)) ''u1''
       = [''c1'']
   \<and> find_user (req_user req_pi) state0 = Some (''u1'', \<lparr>email = ''u1@mail'', courses = []\<rparr>)
   \<and> same_stores state0 (snd (createOrder (world0\<lparr>sendMail := Some ''SMTP down''\<rparr>) req_pi state0))"
proof -
  note h = webhook0_on_state0
  have pending:
    "truthy (request_signature webhook0)
     \<and> verifyWebhookSignature cfg0 (Some (request_data webhook0)) (request_signature webhook0)
     \<and> findOne_orderCode (get (request_data webhook0) ''orderCode'') state0 = Some 0
     \<and> \<not> is_paid (db_orders state0 ! 0) \<and> isPaymentSuccess (request_data webhook0)
     \<and> db_courses state0 (courseId (db_orders state0 ! 0))
         = Some \<lparr>name = ''Course'', purchased = Some 0\<rparr>
     \<and> userId (db_orders state0 ! 0) = Some ''u1''
     \<and> db_users state0 ''u1'' = Some \<lparr>email = ''u1@mail'', courses = []\<rparr>
     \<and> courseId (db_orders state0 ! 0) \<notin> set (courses \<lparr>email = ''u1@mail'', courses = []\<rparr>)"
    using h by blast
  have ev: "stripe_constructEvent world0 = Inr ev0" by (rule world0_fields)
  have stripe:
    "\<not> unset (STRIPE_WEBHOOK_SECRET cfg0) \<and> stripe_constructEvent world0 = Inr ev0
     \<and> ev_type ev0 = ''checkout.session.completed''
     \<and> metadata_courseId ev0 = Some ''c1'' \<and> ''c1'' \<noteq> [] \<and> metadata_userId ev0 = Some ''u1''
     \<and> ''u1'' \<noteq> [] \<and> findOne_id (session_id ev0) state0 = None
     \<and> db_courses state0 ''c1'' = Some \<lparr>name = ''Course'', purchased = Some 0\<rparr>
     \<and> db_users state0 ''u1'' = Some \<lparr>email = ''u1@mail'', courses = []\<rparr>
     \<and> ''c1'' \<notin> set (courses \<lparr>email = ''u1@mail'', courses = []\<rparr>)"
    using ev by (simp add: ev0_def cfg0_def unset_def state0_fields findOne_id_def has_id_def
        pending0_def)
  have usr: "find_user (req_user req_pi) state0
               = Some (''u1'', \<lparr>email = ''u1@mail'', courses = []\<rparr>)"
    by (simp add: req_pi_def find_user_def state0_fields)
  note t = webhook_mail_failure_swallowed [where cfg = cfg0 and w = world0 and req = webhook0
      and s = state0 and msg = "''SMTP down''" and cr = req_pi]
  note t3 = t [THEN conjunct2, THEN conjunct2, THEN conjunct1, THEN mp, OF pending]
  note t4 = t [THEN conjunct2, THEN conjunct2, THEN conjunct2, THEN conjunct1, THEN mp, OF stripe]
  note t5 = t [THEN conjunct2, THEN conjunct2, THEN conjunct2, THEN conjunct2, THEN mp, OF usr]
  show ?thesis using h(1-5) ev usr t3 t4 t5 by simp
qed

text \<open>
  \<^verbatim>\<open>createOrder\<close> with a confirmed payment and the mail transport down: the request fails
  with 500 and nothing is granted.
\<close>

theorem createOrder_mail_counterexample:
  "fst (createOrder world_mail_down req_pi state_fresh) = Next ''SMTP down'' 500
   \<and> owned (snd (createOrder world_mail_down req_pi state_fresh)) ''u1'' = []
   \<and> db_orders (snd (createOrder world_mail_down req_pi state_fresh)) = []
   \<and> db_notifications (snd (createOrder world_mail_down req_pi state_fresh)) = []
   \<and> purchased_count (snd (createOrder world_mail_down req_pi state_fresh)) ''c1'' = 0"
  by (simp add: createOrder_def check_payment_intent_def Let_def req_pi_def world_fields
      state_fresh_fields owned_def purchased_count_def)

subsection \<open>The purchase counter\<close>

text \<open>
  C6. Every successful order should raise the course's \<^verbatim>\<open>purchased\<close> counter by one, also
  from zero. Both webhooks do (\<^verbatim>\<open>(course.purchased || 0) + 1\<close>); \<^verbatim>\<open>createOrder\<close> does not: on a
  course whose counter is 0 or absent, a confirmed payment creates the order and grants the
  course, the course is saved, and the counter still is 0 or absent.
\<close>

theorem createOrder_counter_not_incremented:
  "fst (createOrder world_ok req_pi state_fresh)
     = NewOrderResponse \<lparr>courseId = ''c1'', userId = Some ''u1'',
                          payment_info = req_payment_info req_pi\<rparr>
   \<and> db_orders (snd (createOrder world_ok req_pi state_fresh))
       = [\<lparr>courseId = ''c1'', userId = Some ''u1'', payment_info = req_payment_info req_pi\<rparr>]
   \<and> owned (snd (createOrder world_ok req_pi state_fresh)) ''u1'' = [''c1'']
   \<and> purchased_count state_fresh ''c1'' = 0
   \<and> purchased_count (snd (createOrder world_ok req_pi state_fresh)) ''c1'' = 0
   \<and> CourseSave ''c1'' \<in> set (side_effects (snd (createOrder world_ok req_pi state_fresh)))
   \<and> fst (createOrder world_ok req_pi state_absent)
       = NewOrderResponse \<lparr>courseId = ''c1'', userId = Some ''u1'',
                            payment_info = req_payment_info req_pi\<rparr>
   \<and> owned (snd (createOrder world_ok req_pi state_absent)) ''u1'' = [''c1'']
   \<and> db_courses (snd (createOrder world_ok req_pi state_absent)) ''c1''
       = Some \<lparr>name = ''Course'', purchased = None\<rparr>"
  by (simp add: createOrder_def check_payment_intent_def createOrder_grant_def newOrder_def
      Let_def req_pi_def world_fields state_fresh_fields state_absent_fields owned_def
      purchased_count_def)

subsection \<open>A second purchase of the same course\<close>

text \<open>
  C7, as the code has it. An intent request (\<^verbatim>\<open>createCheckoutSession\<close> or
  \<^verbatim>\<open>createPayOSPayment\<close>) by a user who owns the requested course never reaches the payment
  provider and changes nothing. Its answer is the 400 error "You already purchased this
  course" when the checks that come first pass: a course id and a non-zero amount are given,
  the course exists and, for PayOS, the client id and the API key are configured.
\<close>

theorem duplicate_purchase_rejected:
  assumes "find_user (ir_user req) s = Some (uid, usr)"
    and "ir_courseId req = Some cid" and "cid \<in> set (courses usr)"
  shows "snd (createCheckoutSession w req s) = s
         \<and> snd (createPayOSPayment cfg w req s) = s
         \<and> (cid \<noteq> [] \<and> truthy (ir_amount req) \<and> db_courses s cid = Some crs
            \<longrightarrow> fst (createCheckoutSession w req s) = Next ''You already purchased this course'' 400)
         \<and> (cid \<noteq> [] \<and> truthy (ir_amount req) \<and> db_courses s cid = Some crs
             \<and> \<not> unset (PAYOS_CLIENT_ID cfg) \<and> \<not> unset (PAYOS_API_KEY cfg)
            \<longrightarrow> fst (createPayOSPayment cfg w req s) = Next ''You already purchased this course'' 400)"
  using assms
  by (auto simp: createCheckoutSession_def createPayOSPayment_def unset_def split: option.splits)

theorem duplicate_purchase_rejected_witness:
  "find_user (ir_user intent0) state_owned = Some (''u1'', \<lparr>email = ''u1@mail'', courses = [''c1'']\<rparr>)
   \<and> ir_courseId intent0 = Some ''c1''
   \<and> truthy (ir_amount intent0)
   \<and> snd (createCheckoutSession world0 intent0 state_owned) = state_owned
   \<and> snd (createPayOSPayment cfg0 world0 intent0 state_owned) = state_owned
   \<and> fst (createCheckoutSession world0 intent0 state_owned)
       = Next ''You already purchased this course'' 400
   \<and> fst (createPayOSPayment cfg0 world0 intent0 state_owned)
       = Next ''You already purchased this course'' 400"
proof -
  have u: "find_user (ir_user intent0) state_owned
             = Some (''u1'', \<lparr>email = ''u1@mail'', courses = [''c1'']\<rparr>)"
    by (simp add: intent0_def find_user_def state0_fields)
  have c: "ir_courseId intent0 = Some ''c1''" by (simp add: intent0_def)
  have m: "''c1'' \<in> set (courses \<lparr>email = ''u1@mail'', courses = [''c1'']\<rparr>)" by simp
  have a: "truthy (ir_amount intent0)" by (simp add: intent0_def)
  note t = duplicate_purchase_rejected [OF u c m, where w = world0 and cfg = cfg0
      and crs = "\<lparr>name = ''Course'', purchased = Some 0\<rparr>"]
  show ?thesis using u c a t by (simp add: state0_fields cfg0_def unset_def)
qed

text \<open>
  The owner of the course asking without an amount, and asking PayOS without an API key:
  the answers are the 400 validation error and the 500 configuration error.
\<close>

theorem duplicate_purchase_counterexample:
  "''c1'' \<in> set (owned state_owned ''u1'')
   \<and> fst (createCheckoutSession world0 intent_no_amount state_owned)
       = Next ''Course ID and amount are required'' 400
   \<and> fst (createPayOSPayment (cfg0\<lparr>PAYOS_API_KEY := None\<rparr>) world0 intent0 state_owned)
       = Next ''PayOS credentials are not configured'' 500"
  by (simp add: owned_def state0_fields createCheckoutSession_def createPayOSPayment_def
      intent_no_amount_def intent0_def unset_def cfg0_def)

subsection \<open>Signature verification\<close>

text \<open>
  C8. With the development switch off, \<^verbatim>\<open>verifyWebhookSignature\<close> returns true exactly when
  a non-empty checksum key and a payload are present, the signature is a string, and the hex
  keyed hash of the specification's canonical string (field names sorted, \<open>key=value\<close> pairs
  joined by \<open>&\<close>; null, undefined, "null" and "undefined" as the empty string; any other value
  in its string form) equals the signature when both are lower-cased. With the key or the
  payload missing it returns false. The function is total: no input makes it throw.
\<close>

theorem verifyWebhookSignature_spec:
  assumes "\<not> skip_enabled cfg"
  shows "(verifyWebhookSignature cfg data signature \<longleftrightarrow>
           (\<exists>key d sig. PAYOS_CHECKSUM_KEY cfg = Some key \<and> key \<noteq> [] \<and> data = Some d
              \<and> signature = JStr sig
              \<and> toLowerCase (hmac_sha256_hex cfg key (spec_canonical d)) = toLowerCase sig))
         \<and> (unset (PAYOS_CHECKSUM_KEY cfg) \<or> data = None
              \<longrightarrow> \<not> verifyWebhookSignature cfg data signature)"
  using assms
  by (cases signature)
     (auto simp: verifyWebhookSignature_def unset_def webhook_message_spec Let_def
       split: option.splits)

theorem verifyWebhookSignature_spec_witness:
  "\<not> skip_enabled cfg0
   \<and> verifyWebhookSignature cfg0 (Some data0)
        (JStr ''K:AMOUNT=49&CODE=00&DESC=SUCCESS&ORDERCODE=1700000000123'')
   \<and> \<not> verifyWebhookSignature cfg0 (Some data0) (JStr ''k:amount=50&code=00'')
   \<and> \<not> verifyWebhookSignature cfg0 None (JStr ''k:'')"
proof -
  have skip: "\<not> skip_enabled cfg0" by (rule cfg0_fields)
  have msg: "spec_canonical data0 = ''amount=49&code=00&desc=success&orderCode=1700000000123''"
    by (simp add: webhook_message_spec [symmetric] message_data0)
  have 1: "verifyWebhookSignature cfg0 (Some data0)
        (JStr ''K:AMOUNT=49&CODE=00&DESC=SUCCESS&ORDERCODE=1700000000123'')"
    using verifyWebhookSignature_spec [OF skip, of "Some data0"
      "JStr ''K:AMOUNT=49&CODE=00&DESC=SUCCESS&ORDERCODE=1700000000123''"]
    by (simp add: cfg0_fields msg lower_signature0)
  have 2: "\<not> verifyWebhookSignature cfg0 (Some data0) (JStr ''k:amount=50&code=00'')"
    using verifyWebhookSignature_spec [OF skip, of "Some data0" "JStr ''k:amount=50&code=00''"]
    by (simp add: cfg0_fields msg lower_signature0 toLowerCase_def)
  have 3: "\<not> verifyWebhookSignature cfg0 None (JStr ''k:'')"
    using verifyWebhookSignature_spec [OF skip, of None "JStr ''k:''"] by simp
  from skip 1 2 3 show ?thesis by simp
qed

subsection \<open>The order of the writes in the success path\<close>

text \<open>
  C9, as the code has it. In the success path of the PayOS webhook, for a pending order whose
  user does not own the course yet, the order is saved as \<^verbatim>\<open>PAID\<close> first and the course is
  appended to the user's list after that; then come the mail, the notification, the counter
  and the socket events.
\<close>

theorem payOSWebhook_paid_before_grant:
  assumes "truthy (request_signature req)"
    and "verifyWebhookSignature cfg (Some (request_data req)) (request_signature req)"
    and "findOne_orderCode (get (request_data req) ''orderCode'') s = Some i"
    and "\<not> is_paid (db_orders s ! i)"
    and "isPaymentSuccess (request_data req)"
    and "db_courses s (courseId (db_orders s ! i)) = Some crs"
    and "userId (db_orders s ! i) = Some uid"
    and "db_users s uid = Some usr"
    and "courseId (db_orders s ! i) \<notin> set (courses usr)"
  shows "side_effects (snd (payOSWebhook cfg w req s)) =
           side_effects s
             @ [OrderSave i, UserSave uid, SendMail (email usr), NotificationCreate,
                CourseSave (courseId (db_orders s ! i))]
             @ (if socket_initialised w
                then [SocketEmit ''paymentSuccess'', SocketEmit ''newNotification''] else [])
         \<and> db_orders (snd (payOSWebhook cfg w req s))
             = (db_orders s)[i := set_paid (db_orders s ! i)]
         \<and> is_paid (db_orders (snd (payOSWebhook cfg w req s)) ! i)
         \<and> owned (snd (payOSWebhook cfg w req s)) uid
             = courses usr @ [courseId (db_orders s ! i)]"
proof -
  have i: "i < length (db_orders s)"
    using assms(3) find_index_Some [of "has_orderCode (get (request_data req) ''orderCode'')" "db_orders s" i]
    by (simp add: findOne_orderCode_def)
  show ?thesis
    using assms(9) i by (simp add: payOSWebhook_grant [OF assms] payos_grant_fields owned_def)
qed

theorem payOSWebhook_paid_before_grant_witness:
  "truthy (request_signature webhook0)
   \<and> verifyWebhookSignature cfg0 (Some (request_data webhook0)) (request_signature webhook0)
   \<and> findOne_orderCode (get (request_data webhook0) ''orderCode'') state0 = Some 0
   \<and> \<not> is_paid (db_orders state0 ! 0)
   \<and> isPaymentSuccess (request_data webhook0)
   \<and> is_paid (db_orders (snd (payOSWebhook cfg0 world0 webhook0 state0)) ! 0)
   \<and> owned (snd (payOSWebhook cfg0 world0 webhook0 state0)) ''u1'' = [''c1'']"
proof -
  note h = webhook0_on_state0
  note t = payOSWebhook_paid_before_grant [where w = world0, OF h]
  have c: "courseId (db_orders state0 ! 0) = ''c1''" by (simp add: state0_fields)
  show ?thesis using h(1-5) t unfolding c by (simp add: state0_fields)
qed

text \<open>The writes of one success delivery, in the order in which they happen.\<close>

theorem payOSWebhook_order_counterexample:
  "side_effects (snd (payOSWebhook cfg0 world0 webhook0 state0)) =
     [OrderSave 0, UserSave ''u1'', SendMail ''u1@mail'', NotificationCreate, CourseSave ''c1'',
      SocketEmit ''paymentSuccess'', SocketEmit ''newNotification'']"
proof -
  note r = payOSWebhook_grant [where w = world0, OF webhook0_on_state0]
  show ?thesis
    by (simp add: r payos_grant_fields sample_counts state0_fields world0_fields)
qed

subsection \<open>What counts as a successful payment\<close>

text \<open>
  C10, as the code has it. On an existing pending order, a validly signed PayOS webhook is
  treated as a successful payment exactly when \<^verbatim>\<open>code\<close> is "00", or \<^verbatim>\<open>desc\<close> is "success", or
  \<^verbatim>\<open>status\<close> is "PAID"; any one of the three is enough. If the order's course and user exist
  and the user does not own the course, the whole grant follows: the order is saved as
  \<^verbatim>\<open>PAID\<close>, the course is appended to the user's list, one notification is recorded, the
  counter goes up by one, and the answer is 200. If the user owns the course already, the
  order is saved as \<^verbatim>\<open>PAID\<close> and nothing else is written. If the course or the user of the
  order is gone, the answer is 404 and nothing is done: the order stays unpaid. With none of
  the three conditions the answer is 200 and nothing is done.
\<close>

theorem payOSWebhook_success_classification:
  assumes "truthy (request_signature req)"
    and "verifyWebhookSignature cfg (Some (request_data req)) (request_signature req)"
    and "findOne_orderCode (get (request_data req) ''orderCode'') s = Some i"
    and "\<not> is_paid (db_orders s ! i)"
  shows "((get (request_data req) ''code'' = JStr ''00''
            \<or> get (request_data req) ''desc'' = JStr ''success''
            \<or> get (request_data req) ''status'' = JStr ''PAID'')
          \<and> db_courses s (courseId (db_orders s ! i)) = Some crs
          \<and> userId (db_orders s ! i) = Some uid \<and> db_users s uid = Some usr
          \<and> courseId (db_orders s ! i) \<notin> set (courses usr)
          \<longrightarrow> fst (payOSWebhook cfg w req s) = Res 200 Success
              \<and> db_orders (snd (payOSWebhook cfg w req s))
                  = (db_orders s)[i := set_paid (db_orders s ! i)]
              \<and> is_paid (db_orders (snd (payOSWebhook cfg w req s)) ! i)
              \<and> db_users (snd (payOSWebhook cfg w req s))
                  = (db_users s)(uid \<mapsto> usr\<lparr>courses := courses usr @ [courseId (db_orders s ! i)]\<rparr>)
              \<and> db_notifications (snd (payOSWebhook cfg w req s))
                  = db_notifications s
                    @ [\<lparr>n_userId = Some uid, n_title = ''New Order'',
                        n_message = ''You have a new order for '' @ name crs\<rparr>]
              \<and> db_courses (snd (payOSWebhook cfg w req s))
                  = (db_courses s)(courseId (db_orders s ! i) \<mapsto>
                      crs\<lparr>purchased := Some ((case purchased crs of None \<Rightarrow> 0 | Some n \<Rightarrow> n) + 1)\<rparr>)
              \<and> side_effects (snd (payOSWebhook cfg w req s))
                  = side_effects s
                    @ [OrderSave i, UserSave uid, SendMail (email usr), NotificationCreate,
                       CourseSave (courseId (db_orders s ! i))]
                    @ (if socket_initialised w
                       then [SocketEmit ''paymentSuccess'', SocketEmit ''newNotification'']
                       else []))
         \<and> ((get (request_data req) ''code'' = JStr ''00''
               \<or> get (request_data req) ''desc'' = JStr ''success''
               \<or> get (request_data req) ''status'' = JStr ''PAID'')
             \<and> db_courses s (courseId (db_orders s ! i)) = Some crs
             \<and> userId (db_orders s ! i) = Some uid \<and> db_users s uid = Some usr
             \<and> courseId (db_orders s ! i) \<in> set (courses usr)
          \<longrightarrow> fst (payOSWebhook cfg w req s) = Res 200 (SuccessMessage ''Course already added'')
              \<and> db_orders (snd (payOSWebhook cfg w req s))
                  = (db_orders s)[i := set_paid (db_orders s ! i)]
              \<and> is_paid (db_orders (snd (payOSWebhook cfg w req s)) ! i)
              \<and> db_users (snd (payOSWebhook cfg w req s)) = db_users s
              \<and> db_notifications (snd (payOSWebhook cfg w req s)) = db_notifications s
              \<and> db_courses (snd (payOSWebhook cfg w req s)) = db_courses s
              \<and> side_effects (snd (payOSWebhook cfg w req s)) = side_effects s @ [OrderSave i])
         \<and> ((get (request_data req) ''code'' = JStr ''00''
               \<or> get (request_data req) ''desc'' = JStr ''success''
               \<or> get (request_data req) ''status'' = JStr ''PAID'')
             \<and> (db_courses s (courseId (db_orders s ! i)) = None
                  \<or> find_user (userId (db_orders s ! i)) s = None)
          \<longrightarrow> fst (payOSWebhook cfg w req s) = Res 404 (ErrorBody ''Course or user not found'')
              \<and> no_side_effects s (snd (payOSWebhook cfg w req s))
              \<and> \<not> is_paid (db_orders (snd (payOSWebhook cfg w req s)) ! i))
         \<and> (\<not> (get (request_data req) ''code'' = JStr ''00''
                \<or> get (request_data req) ''desc'' = JStr ''success''
                \<or> get (request_data req) ''status'' = JStr ''PAID'')
          \<longrightarrow> fst (payOSWebhook cfg w req s) = Res 200 Success
              \<and> no_side_effects s (snd (payOSWebhook cfg w req s))
              \<and> \<not> is_paid (db_orders (snd (payOSWebhook cfg w req s)) ! i))"
proof -
  let ?d = "request_data req"
  let ?ok = "get ?d ''code'' = JStr ''00'' \<or> get ?d ''desc'' = JStr ''success''
             \<or> get ?d ''status'' = JStr ''PAID''"
  let ?cid = "courseId (db_orders s ! i)"
  let ?s' = "snd (payOSWebhook cfg w req s)"
  have ok: "?ok \<longleftrightarrow> isPaymentSuccess ?d" by (simp add: isPaymentSuccess_def)
  have i: "i < length (db_orders s)"
    using assms(3) find_index_Some [of "has_orderCode (get ?d ''orderCode'')" "db_orders s" i]
    by (simp add: findOne_orderCode_def)
  have A: "fst (payOSWebhook cfg w req s) = Res 200 Success
           \<and> db_orders ?s' = (db_orders s)[i := set_paid (db_orders s ! i)]
           \<and> is_paid (db_orders ?s' ! i)
           \<and> db_users ?s' = (db_users s)(uid \<mapsto> usr\<lparr>courses := courses usr @ [?cid]\<rparr>)
           \<and> db_notifications ?s'
               = db_notifications s
                 @ [\<lparr>n_userId = Some uid, n_title = ''New Order'',
                     n_message = ''You have a new order for '' @ name crs\<rparr>]
           \<and> db_courses ?s'
               = (db_courses s)(?cid \<mapsto>
                   crs\<lparr>purchased := Some ((case purchased crs of None \<Rightarrow> 0 | Some n \<Rightarrow> n) + 1)\<rparr>)
           \<and> side_effects ?s'
               = side_effects s
                 @ [OrderSave i, UserSave uid, SendMail (email usr), NotificationCreate,
                    CourseSave ?cid]
                 @ (if socket_initialised w
                    then [SocketEmit ''paymentSuccess'', SocketEmit ''newNotification'']
                    else [])"
    if h: "?ok \<and> db_courses s ?cid = Some crs \<and> userId (db_orders s ! i) = Some uid
           \<and> db_users s uid = Some usr \<and> ?cid \<notin> set (courses usr)"
  proof -
    have g: "payOSWebhook cfg w req s =
           (Res 200 Success,
            payos_grant w i (db_orders s ! i) ?cid crs uid usr
              (console Log ''Processing webhook:''
                (verifyWebhookSignature_console cfg (Some ?d) (request_signature req)
                  (console Log ''Webhook received:'' s))))"
      using h ok assms by (intro payOSWebhook_grant) simp_all
    show ?thesis using h i by (simp add: g payos_grant_fields)
  qed
  have B: "fst (payOSWebhook cfg w req s) = Res 200 (SuccessMessage ''Course already added'')
           \<and> db_orders ?s' = (db_orders s)[i := set_paid (db_orders s ! i)]
           \<and> is_paid (db_orders ?s' ! i)
           \<and> db_users ?s' = db_users s
           \<and> db_notifications ?s' = db_notifications s
           \<and> db_courses ?s' = db_courses s
           \<and> side_effects ?s' = side_effects s @ [OrderSave i]"
    if h: "?ok \<and> db_courses s ?cid = Some crs \<and> userId (db_orders s ! i) = Some uid
           \<and> db_users s uid = Some usr \<and> ?cid \<in> set (courses usr)"
  proof -
    have g: "payOSWebhook cfg w req s =
           (Res 200 (SuccessMessage ''Course already added''),
            save_order i (set_paid (db_orders s ! i))
              (console Log ''User already has this course''
                (console Log ''Processing webhook:''
                  (verifyWebhookSignature_console cfg (Some ?d) (request_signature req)
                    (console Log ''Webhook received:'' s)))))"
      using h ok assms
      by (intro payOSWebhook_already_owned [where crs = crs and usr = usr and uid = uid]) simp_all
    show ?thesis using i by (simp add: g)
  qed
  have C: "fst (payOSWebhook cfg w req s) = Res 404 (ErrorBody ''Course or user not found'')
           \<and> no_side_effects s ?s' \<and> \<not> is_paid (db_orders ?s' ! i)"
    if h: "?ok \<and> (db_courses s ?cid = None \<or> find_user (userId (db_orders s ! i)) s = None)"
  proof -
    from h have m: "db_courses s ?cid = None \<or> find_user (userId (db_orders s ! i)) s = None"
      by (rule conjunct2)
    from h have "?ok" by (rule conjunct1)
    with ok have y: "isPaymentSuccess ?d" by (rule iffD1)
    note r = payOSWebhook_not_found [OF assms y m, of w]
    then show ?thesis using assms(4) by (simp add: no_side_effects_def)
  qed
  have D: "fst (payOSWebhook cfg w req s) = Res 200 Success
           \<and> no_side_effects s ?s' \<and> \<not> is_paid (db_orders ?s' ! i)"
    if h: "\<not> ?ok"
  proof -
    have r: "fst (payOSWebhook cfg w req s) = Res 200 Success \<and> no_side_effects s ?s'"
      using h ok assms by (intro payOSWebhook_not_success) simp_all
    then show ?thesis using assms(4) by (simp add: no_side_effects_def)
  qed
  from A B C D show ?thesis by blast
qed

theorem payOSWebhook_success_classification_witness:
  "truthy (request_signature webhook_desc)
   \<and> verifyWebhookSignature cfg0 (Some (request_data webhook_desc)) (request_signature webhook_desc)
   \<and> get (request_data webhook_desc) ''code'' = JStr ''01''
   \<and> get (request_data webhook_desc) ''desc'' = JStr ''success''
   \<and> get (request_data webhook_desc) ''status'' = JStr ''CANCELLED''
   \<and> findOne_orderCode (get (request_data webhook_desc) ''orderCode'') state0 = Some 0
   \<and> \<not> is_paid (db_orders state0 ! 0)
   \<and> fst (payOSWebhook cfg0 world0 webhook_desc state0) = Res 200 Success
   \<and> is_paid (db_orders (snd (payOSWebhook cfg0 world0 webhook_desc state0)) ! 0)
   \<and> owned (snd (payOSWebhook cfg0 world0 webhook_desc state0)) ''u1'' = [''c1'']
   \<and> purchased_count (snd (payOSWebhook cfg0 world0 webhook_desc state0)) ''c1'' = 1
   \<and> length (db_notifications (snd (payOSWebhook cfg0 world0 webhook_desc state0))) = 1
   \<and> fst (payOSWebhook cfg0 world0 webhook_desc state_owned)
       = Res 200 (SuccessMessage ''Course already added'')
   \<and> is_paid (db_orders (snd (payOSWebhook cfg0 world0 webhook_desc state_owned)) ! 0)
   \<and> side_effects (snd (payOSWebhook cfg0 world0 webhook_desc state_owned)) = [OrderSave 0]
   \<and> fst (payOSWebhook cfg0 world0 webhook_desc state_nocourse)
       = Res 404 (ErrorBody ''Course or user not found'')
   \<and> no_side_effects state_nocourse (snd (payOSWebhook cfg0 world0 webhook_desc state_nocourse))
   \<and> truthy (request_signature webhook_fail)
   \<and> verifyWebhookSignature cfg0 (Some (request_data webhook_fail)) (request_signature webhook_fail)
   \<and> get (request_data webhook_fail) ''code'' = JStr ''01''
   \<and> get (request_data webhook_fail) ''desc'' = JStr ''failed''
   \<and> get (request_data webhook_fail) ''status'' = JStr ''CANCELLED''
   \<and> fst (payOSWebhook cfg0 world0 webhook_fail state0) = Res 200 Success
   \<and> \<not> is_paid (db_orders (snd (payOSWebhook cfg0 world0 webhook_fail state0)) ! 0)
   \<and> no_side_effects state0 (snd (payOSWebhook cfg0 world0 webhook_fail state0))"
proof -
  note d = webhook_desc_on_samples
  note f = webhook_fail_on_samples
  have p0: "\<not> is_paid (db_orders state0 ! 0)" by (rule webhook0_on_state0)
  have po: "\<not> is_paid (db_orders state_owned ! 0)" by (rule webhook0_on_state_owned)
  have pn: "\<not> is_paid (db_orders state_nocourse ! 0)"
    by (simp add: state_nocourse_fields state0_fields)
  have okd: "get (request_data webhook_desc) ''code'' = JStr ''00''
             \<or> get (request_data webhook_desc) ''desc'' = JStr ''success''
             \<or> get (request_data webhook_desc) ''status'' = JStr ''PAID''"
    using d(7) by blast
  have nof: "\<not> (get (request_data webhook_fail) ''code'' = JStr ''00''
             \<or> get (request_data webhook_fail) ''desc'' = JStr ''success''
             \<or> get (request_data webhook_fail) ''status'' = JStr ''PAID'')"
    by (simp add: f)
  have hA: "(get (request_data webhook_desc) ''code'' = JStr ''00''
             \<or> get (request_data webhook_desc) ''desc'' = JStr ''success''
             \<or> get (request_data webhook_desc) ''status'' = JStr ''PAID'')
          \<and> db_courses state0 (courseId (db_orders state0 ! 0))
              = Some \<lparr>name = ''Course'', purchased = Some 0\<rparr>
          \<and> userId (db_orders state0 ! 0) = Some ''u1''
          \<and> db_users state0 ''u1'' = Some \<lparr>email = ''u1@mail'', courses = []\<rparr>
          \<and> courseId (db_orders state0 ! 0) \<notin> set (courses \<lparr>email = ''u1@mail'', courses = []\<rparr>)"
    using okd webhook0_on_state0(6-9) by blast
  have hB: "(get (request_data webhook_desc) ''code'' = JStr ''00''
             \<or> get (request_data webhook_desc) ''desc'' = JStr ''success''
             \<or> get (request_data webhook_desc) ''status'' = JStr ''PAID'')
          \<and> db_courses state_owned (courseId (db_orders state_owned ! 0))
              = Some \<lparr>name = ''Course'', purchased = Some 0\<rparr>
          \<and> userId (db_orders state_owned ! 0) = Some ''u1''
          \<and> db_users state_owned ''u1'' = Some \<lparr>email = ''u1@mail'', courses = [''c1'']\<rparr>
          \<and> courseId (db_orders state_owned ! 0)
              \<in> set (courses \<lparr>email = ''u1@mail'', courses = [''c1'']\<rparr>)"
    using okd webhook0_on_state_owned(3-6) by blast
  have hC: "(get (request_data webhook_desc) ''code'' = JStr ''00''
             \<or> get (request_data webhook_desc) ''desc'' = JStr ''success''
             \<or> get (request_data webhook_desc) ''status'' = JStr ''PAID'')
          \<and> (db_courses state_nocourse (courseId (db_orders state_nocourse ! 0)) = None
               \<or> find_user (userId (db_orders state_nocourse ! 0)) state_nocourse = None)"
    using okd by (simp add: state_nocourse_fields)
  note tA = payOSWebhook_success_classification [where w = world0, OF d(1,2,3) p0,
      THEN conjunct1, THEN mp, OF hA]
  note tB = payOSWebhook_success_classification [where w = world0, OF d(1,2,4) po,
      THEN conjunct2, THEN conjunct1, THEN mp, OF hB]
  note tC = payOSWebhook_success_classification [where w = world0, OF d(1,2,5) pn,
      THEN conjunct2, THEN conjunct2, THEN conjunct1, THEN mp, OF hC]
  note tD = payOSWebhook_success_classification [where w = world0, OF f(1,2,3) p0,
      THEN conjunct2, THEN conjunct2, THEN conjunct2, THEN mp, OF nof]
  have c: "courseId (db_orders state0 ! 0) = ''c1''" by (simp add: state0_fields)
  have A: "fst (payOSWebhook cfg0 world0 webhook_desc state0) = Res 200 Success
     \<and> is_paid (db_orders (snd (payOSWebhook cfg0 world0 webhook_desc state0)) ! 0)
     \<and> owned (snd (payOSWebhook cfg0 world0 webhook_desc state0)) ''u1'' = [''c1'']
     \<and> purchased_count (snd (payOSWebhook cfg0 world0 webhook_desc state0)) ''c1'' = 1
     \<and> length (db_notifications (snd (payOSWebhook cfg0 world0 webhook_desc state0))) = 1"
    using tA unfolding c by (simp add: owned_def purchased_count_def state0_fields)
  have B: "fst (payOSWebhook cfg0 world0 webhook_desc state_owned)
       = Res 200 (SuccessMessage ''Course already added'')
     \<and> is_paid (db_orders (snd (payOSWebhook cfg0 world0 webhook_desc state_owned)) ! 0)
     \<and> side_effects (snd (payOSWebhook cfg0 world0 webhook_desc state_owned)) = [OrderSave 0]"
    using tB by (simp add: sample_counts state0_fields)
  show ?thesis using d(1,2,3,6,7,8) f(1,2,4,5,6) p0 A B tC tD by simp
qed

text \<open>
  A pending order whose course is gone: a webhook whose \<^verbatim>\<open>desc\<close> says success is answered
  404, the order is not \<^verbatim>\<open>PAID\<close> and the user gains nothing.
\<close>

theorem payOSWebhook_missing_course_counterexample:
  "truthy (request_signature webhook_desc)
   \<and> verifyWebhookSignature cfg0 (Some (request_data webhook_desc)) (request_signature webhook_desc)
   \<and> get (request_data webhook_desc) ''desc'' = JStr ''success''
   \<and> findOne_orderCode (get (request_data webhook_desc) ''orderCode'') state_nocourse = Some 0
   \<and> \<not> is_paid (db_orders state_nocourse ! 0)
   \<and> fst (payOSWebhook cfg0 world0 webhook_desc state_nocourse)
       = Res 404 (ErrorBody ''Course or user not found'')
   \<and> \<not> is_paid (db_orders (snd (payOSWebhook cfg0 world0 webhook_desc state_nocourse)) ! 0)
   \<and> owned (snd (payOSWebhook cfg0 world0 webhook_desc state_nocourse)) ''u1'' = []"
proof -
  note d = webhook_desc_on_samples
  have p: "\<not> is_paid (db_orders state_nocourse ! 0)"
    by (simp add: state_nocourse_fields state0_fields)
  have m: "db_courses state_nocourse (courseId (db_orders state_nocourse ! 0)) = None
           \<or> find_user (userId (db_orders state_nocourse ! 0)) state_nocourse = None"
    by (simp add: state_nocourse_fields)
  note r = payOSWebhook_not_found [where w = world0, OF d(1,2,5) p d(9) m]
  have u: "db_users state_nocourse ''u1'' = Some \<lparr>email = ''u1@mail'', courses = []\<rparr>"
    by (simp add: state_nocourse_def state0_def)
  show ?thesis
    using d(1,2,5,7) p r u by (simp add: no_side_effects_def owned_def)
qed

end
